theory Spec2Isabelle
  imports Main "HOL-Library.AList"
begin

section \<open>The table layer of baza.py\<close>

text \<open>
  The module talks to three things outside itself: the storage connection
  (\<open>sqlite3\<close>), the data files read through \<open>csv.reader\<close>, and standard output.
  The connection is a parameter of the model (a record of its three operations over an
  engine state \<open>'c\<close>), the files are a function from path and encoding to the parsed
  records, and everything the module does to the outside is threaded through a world
  value: the engine state, the list of connection calls made so far, and the lines
  printed so far. A Python exception is the \<open>Inl\<close> branch of a result; the world is
  returned next to it, since what was done before the exception stays done.
\<close>

datatype error =
    NotImplementedError
  | TypeError
  | StopIteration
  | OSError
  | OperationalError string
  | IntegrityError string
  | ProgrammingError string

text \<open>
  Of a cursor the module reads \<open>lastrowid\<close> and nothing else; the rows a cursor gives
  are not part of the model.
\<close>

record cursor =
  lastrowid :: "int option"

type_synonym bindings = "(string \<times> string option) list"

record 'c connection =
  execute :: "string \<Rightarrow> bindings \<Rightarrow> 'c \<Rightarrow> (error + cursor) \<times> 'c"
  commit :: "'c \<Rightarrow> 'c"
  rollback :: "'c \<Rightarrow> 'c"

datatype call = Execute string bindings | Commit | Rollback

record 'c world =
  engine :: 'c
  calls :: "call list"
  printed :: "string list"

type_synonym files = "string \<Rightarrow> string \<Rightarrow> error + string list list"

text \<open>\<open>self.conn.execute(sql, params)\<close>: one call on the connection, recorded.\<close>

definition conn_execute ::
  "'c connection \<Rightarrow> string \<Rightarrow> bindings \<Rightarrow> 'c world \<Rightarrow> (error + cursor) \<times> 'c world" where
  "conn_execute conn sql params w =
     (case execute conn sql params (engine w) of
        (r, e') \<Rightarrow> (r, w\<lparr>engine := e', calls := calls w @ [Execute sql params]\<rparr>))"

text \<open>A \<open>for\<close> loop whose body may raise: the first exception ends the loop.\<close>

fun for_each ::
  "('a \<Rightarrow> 's \<Rightarrow> (error + unit) \<times> 's) \<Rightarrow> 'a list \<Rightarrow> 's \<Rightarrow> (error + unit) \<times> 's" where
  "for_each body [] s = (Inr (), s)"
| "for_each body (x # xs) s =
     (case body x s of
        (Inl e, s') \<Rightarrow> (Inl e, s')
      | (Inr _, s') \<Rightarrow> for_each body xs s')"

subsection \<open>The classes\<close>

text \<open>
  \<open>Tabela\<close> is the base class, the other five are its subclasses. The class attributes
  \<open>ime\<close> and \<open>podatki\<close> are \<open>None\<close> in the base class.
\<close>

datatype tabela = Tabela | Stranka | Oblacila | Zaloga | Kosarica | Narocilo

fun ime :: "tabela \<Rightarrow> string option" where
  "ime Tabela = None"
| "ime Stranka = Some ''stranka''"
| "ime Oblacila = Some ''oblacilo''"
| "ime Zaloga = Some ''zaloga''"
| "ime Kosarica = Some ''kosarica''"
| "ime Narocilo = Some ''narocilo''"

fun podatki :: "tabela \<Rightarrow> string option" where
  "podatki Tabela = None"
| "podatki Stranka = Some ''podatki/stranka.csv''"
| "podatki Oblacila = Some ''podatki/oblacila.csv''"
| "podatki Zaloga = Some ''podatki/zaloga.csv''"
| "podatki Kosarica = Some ''podatki/kosarica.csv''"
| "podatki Narocilo = Some ''podatki/narocilo.csv''"

text \<open>How an f-string or \<open>print\<close> renders a value that is a string or \<open>None\<close>.\<close>

definition fmt :: "string option \<Rightarrow> string" where
  "fmt x = (case x of None \<Rightarrow> ''None'' | Some s \<Rightarrow> s)"

text \<open>
  The statement each override of \<open>ustvari\<close> sends; the base class has none and raises
  \<open>NotImplementedError\<close>.
\<close>

fun ustvari_sql :: "tabela \<Rightarrow> string option" where
  "ustvari_sql Tabela = None"
| "ustvari_sql Stranka = Some (
   ''\<newline>'' @
   ''            CREATE TABLE stranka (\<newline>'' @
   ''                id          INTEGER PRIMARY KEY AUTOINCREMENT,\<newline>'' @
   ''                first_name   TEXT NOT NULL,\<newline>'' @
   ''                last_name   TEXT NOT NULL,\<newline>'' @
   ''                email       TEXT NOT NULL,\<newline>'' @
   ''                gender      TEXT NOT NULL,\<newline>'' @
   ''                ip_address  TEXT NOT NULL\<newline>'' @
   ''            );\<newline>'' @
   ''        '')"
| "ustvari_sql Oblacila = Some (
   ''\<newline>'' @
   ''            CREATE TABLE oblacilo (\<newline>'' @
   ''                clothing_type     TEXT NOT NULL,\<newline>'' @
   ''                size              TEXT NOT NULL,\<newline>'' @
   ''                color             TEXT NOT NULL,\<newline>'' @
   ''                brand             TEXT NOT NULL,\<newline>'' @
   ''                material          TEXT NOT NULL,\<newline>'' @
   ''                price             INTEGER NOT NULL,\<newline>'' @
   ''                season            TEXT NOT NULL,\<newline>'' @
   ''                ID        TEXT PRIMARY KEY\<newline>'' @
   ''            );\<newline>'' @
   ''        '')"
| "ustvari_sql Zaloga = Some (
   ''\<newline>'' @
   ''            CREATE TABLE zaloga (\<newline>'' @
   ''                id_dobave            TEXT PRIMARY KEY,\<newline>'' @
   ''                id_izdelka           TEXT REFERENCES oblacila(ID),\<newline>'' @
   ''                price                REAL NOT NULL,\<newline>'' @
   ''                quantity             INTEGER NOT NULL,\<newline>'' @
   ''                date_of_launch       DATE\<newline>'' @
   ''            );\<newline>'' @
   ''        '')"
| "ustvari_sql Kosarica = Some (
   ''\<newline>'' @
   ''            CREATE TABLE kosarica (\<newline>'' @
   ''                cart_id        INTEGER PRIMARY KEY AUTOINCREMENT,\<newline>'' @
   ''                product_id          TEXT REFERENCES oblacila(ID),\<newline>'' @
   ''                discount           REAL\<newline>'' @
   ''            );\<newline>'' @
   ''        '')"
| "ustvari_sql Narocilo = Some (
   ''\<newline>'' @
   ''            CREATE TABLE narocilo (\<newline>'' @
   ''                id_kosarice      TEXT REFERENCES kosarica(id_kosarice),\<newline>'' @
   ''                ID               TEXT REFERENCES stranka(id),\<newline>'' @
   ''                status           BOOLEAN,\<newline>'' @
   ''                status_2         BOOLEAN\<newline>'' @
   ''            )\<newline>'' @
   ''        '')"

definition ustvari :: "'c connection \<Rightarrow> tabela \<Rightarrow> 'c world \<Rightarrow> (error + unit) \<times> 'c world" where
  "ustvari conn t w =
     (case ustvari_sql t of
        None \<Rightarrow> (Inl NotImplementedError, w)
      | Some sql \<Rightarrow>
          (case conn_execute conn sql [] w of
             (Inl e, w') \<Rightarrow> (Inl e, w')
           | (Inr _, w') \<Rightarrow> (Inr (), w')))"

definition izbrisi :: "'c connection \<Rightarrow> tabela \<Rightarrow> 'c world \<Rightarrow> (error + unit) \<times> 'c world" where
  "izbrisi conn t w =
     (case conn_execute conn (''DROP TABLE IF EXISTS '' @ fmt (ime t) @ '';'') [] w of
        (Inl e, w') \<Rightarrow> (Inl e, w')
      | (Inr _, w') \<Rightarrow> (Inr (), w'))"

definition izprazni :: "'c connection \<Rightarrow> tabela \<Rightarrow> 'c world \<Rightarrow> (error + unit) \<times> 'c world" where
  "izprazni conn t w =
     (case conn_execute conn (''DELETE FROM '' @ fmt (ime t) @ '';'') [] w of
        (Inl e, w') \<Rightarrow> (Inl e, w')
      | (Inr _, w') \<Rightarrow> (Inr (), w'))"

subsection \<open>Building the insert statement\<close>

text \<open>\<open>PARAM_FMT.format(s)\<close> with \<open>PARAM_FMT = ":{}"\<close>.\<close>

definition PARAM_FMT_format :: "string \<Rightarrow> string" where
  "PARAM_FMT_format s = '':'' @ s"

text \<open>\<open>sep.join(parts)\<close>.\<close>

fun join :: "string \<Rightarrow> string list \<Rightarrow> string" where
  "join sep [] = []"
| "join sep [x] = x"
| "join sep (x # y # ys) = x @ sep @ join sep (y # ys)"

text \<open>
  \<open>stolpci\<close> defaults to \<open>None\<close>, and \<open>", ".join(None)\<close> raises \<open>TypeError\<close>; any
  sequence of strings, the empty one too, gives a text.
\<close>

definition dodajanje :: "tabela \<Rightarrow> string list option \<Rightarrow> error + string" where
  "dodajanje t stolpci =
     (case stolpci of
        None \<Rightarrow> Inl TypeError
      | Some cs \<Rightarrow>
          Inr (''\<newline>'' @
               ''            INSERT INTO '' @ fmt (ime t) @ '' ('' @ join '', '' cs @ '')\<newline>'' @
               ''            VALUES ('' @ join '', '' (map PARAM_FMT_format cs) @ '');\<newline>'' @
               ''        ''))"

subsection \<open>Inserting a row\<close>

text \<open>
  \<open>podatki\<close> is the keyword dictionary, in insertion order. The result is the
  \<open>lastrowid\<close> of the cursor the connection returns.
\<close>

definition dodaj_vrstico ::
  "'c connection \<Rightarrow> tabela \<Rightarrow> bindings \<Rightarrow> 'c world \<Rightarrow> (error + int option) \<times> 'c world" where
  "dodaj_vrstico conn t kwargs w =
     (let podatki = filter (\<lambda>(kljuc, vrednost). vrednost \<noteq> None) kwargs in
      case dodajanje t (Some (map fst podatki)) of
        Inl e \<Rightarrow> (Inl e, w)
      | Inr poizvedba \<Rightarrow>
          (case conn_execute conn poizvedba podatki w of
             (Inl e, w') \<Rightarrow> (Inl e, w')
           | (Inr cur, w') \<Rightarrow> (Inr (lastrowid cur), w')))"

subsection \<open>Importing a data file\<close>

text \<open>
  A dictionary display or comprehension fed with key/value pairs in order: a key that
  comes again keeps its place and takes the new value.
\<close>

definition dict_of :: "('k \<times> 'v) list \<Rightarrow> ('k \<times> 'v) list" where
  "dict_of kvs = foldl (\<lambda>d (k, v). AList.update k v d) [] kvs"

text \<open>
  Line 51: \<open>{k: None if v == "" else v for k, v in zip(stolpci, vrstica)}\<close>.
\<close>

definition prazno_v_None :: "string \<Rightarrow> string option" where
  "prazno_v_None v = (if v = '''' then None else Some v)"

definition vrstica_slovar :: "string list \<Rightarrow> string list \<Rightarrow> bindings" where
  "vrstica_slovar stolpci vrstica =
     dict_of (map (\<lambda>(k, v). (k, prazno_v_None v)) (zip stolpci vrstica))"

text \<open>
  Line 52: \<open>self.dodaj_vrstico(**vrstica)\<close>. A key \<open>self\<close> collides with the bound
  first parameter, and the call raises \<open>TypeError\<close> before the body runs.
\<close>

definition uvozi_vrstica ::
  "'c connection \<Rightarrow> tabela \<Rightarrow> string list \<Rightarrow> string list \<Rightarrow> 'c world \<Rightarrow> (error + unit) \<times> 'c world" where
  "uvozi_vrstica conn t stolpci vrstica w =
     (let slovar = vrstica_slovar stolpci vrstica in
      if ''self'' \<in> set (map fst slovar) then (Inl TypeError, w)
      else (case dodaj_vrstico conn t slovar w of
              (Inl e, w') \<Rightarrow> (Inl e, w')
            | (Inr _, w') \<Rightarrow> (Inr (), w')))"

text \<open>
  The file is given as the records \<open>csv.reader\<close> yields from it; \<open>open\<close> may fail, and
  \<open>next\<close> on a file with no record raises \<open>StopIteration\<close>.
\<close>

definition uvozi ::
  "'c connection \<Rightarrow> files \<Rightarrow> tabela \<Rightarrow> string \<Rightarrow> 'c world \<Rightarrow> (error + unit) \<times> 'c world" where
  "uvozi conn fs t encoding w =
     (case podatki t of
        None \<Rightarrow> (Inr (), w)
      | Some pot \<Rightarrow>
          (case fs pot encoding of
             Inl e \<Rightarrow> (Inl e, w)
           | Inr zapisi \<Rightarrow>
               (case zapisi of
                  [] \<Rightarrow> (Inl StopIteration, w)
                | stolpci # vrstice \<Rightarrow> for_each (uvozi_vrstica conn t stolpci) vrstice w)))"

subsection \<open>The orchestrator and the start-up check\<close>

definition ustvari_tabele :: "'c connection \<Rightarrow> tabela list \<Rightarrow> 'c world \<Rightarrow> (error + unit) \<times> 'c world" where
  "ustvari_tabele conn tabele = for_each (ustvari conn) tabele"

definition izbrisi_tabele :: "'c connection \<Rightarrow> tabela list \<Rightarrow> 'c world \<Rightarrow> (error + unit) \<times> 'c world" where
  "izbrisi_tabele conn tabele = for_each (izbrisi conn) tabele"

definition uvozi_podatke ::
  "'c connection \<Rightarrow> files \<Rightarrow> tabela list \<Rightarrow> 'c world \<Rightarrow> (error + unit) \<times> 'c world" where
  "uvozi_podatke conn fs tabele =
     for_each (\<lambda>t w. uvozi conn fs t ''UTF-8''
                       (w\<lparr>printed := printed w @ [''uvozi v tabelo '' @ fmt (ime t)]\<rparr>)) tabele"

definition izprazni_tabele :: "'c connection \<Rightarrow> tabela list \<Rightarrow> 'c world \<Rightarrow> (error + unit) \<times> 'c world" where
  "izprazni_tabele conn tabele = for_each (izprazni conn) tabele"

definition pripravi_tabele :: "tabela list" where
  "pripravi_tabele = [Stranka, Oblacila, Zaloga, Kosarica, Narocilo]"

definition ustvari_bazo :: "'c connection \<Rightarrow> files \<Rightarrow> 'c world \<Rightarrow> (error + unit) \<times> 'c world" where
  "ustvari_bazo conn fs w =
     (let tabele = pripravi_tabele in
      case izbrisi_tabele conn tabele w of
        (Inl e, w1) \<Rightarrow> (Inl e, w1)
      | (Inr _, w1) \<Rightarrow>
          (case ustvari_tabele conn tabele w1 of
             (Inl e, w2) \<Rightarrow> (Inl e, w2)
           | (Inr _, w2) \<Rightarrow> uvozi_podatke conn fs tabele w2))"

text \<open>
  \<open>with conn:\<close> commits when the block ends normally, and rolls back and lets the
  exception through when it raises.
\<close>

definition with_conn ::
  "'c connection \<Rightarrow> ('c world \<Rightarrow> (error + 'a) \<times> 'c world) \<Rightarrow> 'c world \<Rightarrow> (error + 'a) \<times> 'c world" where
  "with_conn conn block w =
     (case block w of
        (Inl e, w') \<Rightarrow>
          (Inl e, w'\<lparr>engine := rollback conn (engine w'), calls := calls w' @ [Rollback]\<rparr>)
      | (Inr a, w') \<Rightarrow>
          (Inr a, w'\<lparr>engine := commit conn (engine w'), calls := calls w' @ [Commit]\<rparr>))"

text \<open>
  The test on the result of the count is commented out in the source: the cursor is
  bound to \<open>cur\<close> and not read.
\<close>

definition ustvari_bazo_ce_ne_obstaja ::
  "'c connection \<Rightarrow> files \<Rightarrow> 'c world \<Rightarrow> (error + unit) \<times> 'c world" where
  "ustvari_bazo_ce_ne_obstaja conn fs =
     with_conn conn (\<lambda>w.
       case conn_execute conn ''SELECT COUNT(*) FROM sqlite_master'' [] w of
         (Inl e, w') \<Rightarrow> (Inl e, w')
       | (Inr cur, w') \<Rightarrow> ustvari_bazo conn fs w')"


section \<open>A model of the storage engine\<close>

text \<open>
  The engine itself is not part of the module. For the statements about what the store
  holds after a call, the connection is instantiated with a small model of the engine
  the module is run against, restricted to the statement forms the module sends:
  \<open>DROP TABLE IF EXISTS\<close>, \<open>CREATE TABLE\<close>, \<open>DELETE FROM\<close>, \<open>INSERT INTO\<close> with a
  column list and named placeholders, and the two \<open>SELECT\<close>s. A table is stored as the
  text that created it and its rows. What the engine checks of a row on insert (the
  column constraints, and the row identifier it assigns) is a parameter of the model.
  Foreign keys are declared in the schema texts but the module never switches their
  enforcement on, and the engine never looks for the referenced table when a table is
  created; so the model stores a \<open>REFERENCES\<close> clause with the rest of the text and
  does nothing else with it.
\<close>

record stored_table =
  t_sql :: string
  t_rows :: "(int \<times> bindings) list"

record sqlite_db =
  db_tables :: "(string \<times> stored_table) list"
  db_saved :: "(string \<times> stored_table) list option"

type_synonym integrity = "string \<Rightarrow> stored_table \<Rightarrow> bindings \<Rightarrow> error + int"

datatype statement =
    DropTableIfExists string
  | CreateTable string
  | DeleteFrom string
  | InsertInto string "string list" "string list"
  | SelectCountMaster
  | SelectAll string

subsection \<open>Reading a statement\<close>

definition is_space :: "char \<Rightarrow> bool" where
  "is_space c \<longleftrightarrow> c \<in> set [CHR '' '', CHR ''\<newline>'', CHR 0x09, CHR 0x0D]"

definition is_ident :: "char \<Rightarrow> bool" where
  "is_ident c \<longleftrightarrow>
     c \<in> set ''abcdefghijklmnopqrstuvwxyzABCDEFGHIJKLMNOPQRSTUVWXYZ0123456789_''"

definition skip_space :: "string \<Rightarrow> string" where
  "skip_space s = dropWhile is_space s"

fun strip_prefix :: "string \<Rightarrow> string \<Rightarrow> string option" where
  "strip_prefix [] s = Some s"
| "strip_prefix (p # ps) [] = None"
| "strip_prefix (p # ps) (c # cs) = (if p = c then strip_prefix ps cs else None)"

definition keyword :: "string \<Rightarrow> string \<Rightarrow> string option" where
  "keyword k s = strip_prefix k (skip_space s)"

definition end_of_statement :: "string \<Rightarrow> bool" where
  "end_of_statement s \<longleftrightarrow>
     (case skip_space s of
        [] \<Rightarrow> True
      | c # r \<Rightarrow> c = CHR '';'' \<and> skip_space r = [])"

definition table_name :: "string \<Rightarrow> (string \<times> string) option" where
  "table_name s =
     (let r = skip_space s; n = takeWhile is_ident r in
      if n = [] then None else Some (n, dropWhile is_ident r))"

fun split_on :: "char \<Rightarrow> string \<Rightarrow> string list" where
  "split_on sep [] = [[]]"
| "split_on sep (c # cs) =
     (if c = sep then [] # split_on sep cs
      else (case split_on sep cs of
              [] \<Rightarrow> [[c]]
            | p # ps \<Rightarrow> (c # p) # ps))"

definition trim :: "string \<Rightarrow> string" where
  "trim s = rev (skip_space (rev (skip_space s)))"

definition items :: "string \<Rightarrow> string list" where
  "items s = (if skip_space s = [] then [] else map trim (split_on (CHR '','') s))"

definition parenthesised :: "string \<Rightarrow> (string \<times> string) option" where
  "parenthesised s =
     (case keyword ''('' s of
        None \<Rightarrow> None
      | Some r \<Rightarrow>
          if CHR '')'' \<in> set r
          then Some (takeWhile (\<lambda>c. c \<noteq> CHR '')'') r, tl (dropWhile (\<lambda>c. c \<noteq> CHR '')'') r))
          else None)"

definition is_name :: "string \<Rightarrow> bool" where
  "is_name s \<longleftrightarrow> s \<noteq> [] \<and> list_all is_ident s"

definition is_placeholder :: "string \<Rightarrow> bool" where
  "is_placeholder s \<longleftrightarrow> (case s of [] \<Rightarrow> False | c # n \<Rightarrow> c = CHR '':'' \<and> is_name n)"

text \<open>
  A list item that \<open>items\<close> gives back as it is: not empty, with no comma, no closing
  parenthesis and no white space in it.
\<close>

definition clean :: "string \<Rightarrow> bool" where
  "clean x \<longleftrightarrow> x \<noteq> [] \<and> (\<forall>c \<in> set x. c \<noteq> CHR '','' \<and> c \<noteq> CHR '')'' \<and> \<not> is_space c)"

definition parse_insert :: "string \<Rightarrow> statement option" where
  "parse_insert s =
     (case table_name s of
        None \<Rightarrow> None
      | Some (n, r1) \<Rightarrow>
          (case parenthesised r1 of
             None \<Rightarrow> None
           | Some (cols, r2) \<Rightarrow>
               (case keyword ''VALUES'' r2 of
                  None \<Rightarrow> None
                | Some r3 \<Rightarrow>
                    (case parenthesised r3 of
                       None \<Rightarrow> None
                     | Some (vals, r4) \<Rightarrow>
                         if end_of_statement r4 \<and> items cols \<noteq> [] \<and> items vals \<noteq> []
                            \<and> list_all is_name (items cols)
                            \<and> list_all is_placeholder (items vals)
                         then Some (InsertInto n (items cols) (items vals))
                         else None))))"

definition parse_named :: "(string \<Rightarrow> statement) \<Rightarrow> string \<Rightarrow> statement option" where
  "parse_named mk s =
     (case table_name s of
        None \<Rightarrow> None
      | Some (n, r) \<Rightarrow> if end_of_statement r then Some (mk n) else None)"

text \<open>The column definitions of \<open>CREATE TABLE\<close> are kept as text and not read.\<close>

definition parse_create :: "string \<Rightarrow> statement option" where
  "parse_create s =
     (case table_name s of
        None \<Rightarrow> None
      | Some (n, r) \<Rightarrow>
          (case parenthesised r of
             None \<Rightarrow> None
           | Some _ \<Rightarrow> Some (CreateTable n)))"

definition parse :: "string \<Rightarrow> statement option" where
  "parse sql =
     (case keyword ''DROP TABLE IF EXISTS '' sql of
        Some r \<Rightarrow> parse_named DropTableIfExists r
      | None \<Rightarrow>
     (case keyword ''CREATE TABLE '' sql of
        Some r \<Rightarrow> parse_create r
      | None \<Rightarrow>
     (case keyword ''DELETE FROM '' sql of
        Some r \<Rightarrow> parse_named DeleteFrom r
      | None \<Rightarrow>
     (case keyword ''INSERT INTO '' sql of
        Some r \<Rightarrow> parse_insert r
      | None \<Rightarrow>
     (case keyword ''SELECT COUNT(*) FROM sqlite_master'' sql of
        Some r \<Rightarrow> if end_of_statement r then Some SelectCountMaster else None
      | None \<Rightarrow>
     (case keyword ''SELECT * FROM '' sql of
        Some r \<Rightarrow> parse_named SelectAll r
      | None \<Rightarrow> None))))))"

subsection \<open>Running a statement\<close>

text \<open>
  The Python connection opens a transaction before a statement that changes rows, when
  none is open; \<open>commit\<close> ends it and \<open>rollback\<close> returns to the tables as they were
  when it was opened.
\<close>

definition begin_implicit :: "sqlite_db \<Rightarrow> sqlite_db" where
  "begin_implicit d =
     (case db_saved d of
        None \<Rightarrow> d\<lparr>db_saved := Some (db_tables d)\<rparr>
      | Some _ \<Rightarrow> d)"

definition sqlite_commit :: "sqlite_db \<Rightarrow> sqlite_db" where
  "sqlite_commit d = d\<lparr>db_saved := None\<rparr>"

definition sqlite_rollback :: "sqlite_db \<Rightarrow> sqlite_db" where
  "sqlite_rollback d =
     (case db_saved d of
        None \<Rightarrow> d
      | Some ts \<Rightarrow> d\<lparr>db_tables := ts, db_saved := None\<rparr>)"

definition no_rows :: cursor where
  "no_rows = \<lparr>lastrowid = None\<rparr>"

definition bind_values :: "bindings \<Rightarrow> string list \<Rightarrow> string option list option" where
  "bind_values params vals =
     (if list_all (\<lambda>v. map_of params (tl v) \<noteq> None) vals
      then Some (map (\<lambda>v. the (map_of params (tl v))) vals)
      else None)"

definition run :: "integrity \<Rightarrow> string \<Rightarrow> statement \<Rightarrow> bindings \<Rightarrow> sqlite_db \<Rightarrow> (error + cursor) \<times> sqlite_db" where
  "run chk sql st params d =
     (case st of
        DropTableIfExists n \<Rightarrow>
          (Inr no_rows, d\<lparr>db_tables := AList.delete n (db_tables d)\<rparr>)
      | CreateTable n \<Rightarrow>
          (case map_of (db_tables d) n of
             Some _ \<Rightarrow> (Inl (OperationalError (''table '' @ n @ '' already exists'')), d)
           | None \<Rightarrow>
               (Inr no_rows, d\<lparr>db_tables := db_tables d @ [(n, \<lparr>t_sql = sql, t_rows = []\<rparr>)]\<rparr>))
      | DeleteFrom n \<Rightarrow>
          (case map_of (db_tables d) n of
             None \<Rightarrow> (Inl (OperationalError (''no such table: '' @ n)), d)
           | Some tb \<Rightarrow>
               (let d1 = begin_implicit d in
                (Inr no_rows, d1\<lparr>db_tables := AList.update n (tb\<lparr>t_rows := []\<rparr>) (db_tables d1)\<rparr>)))
      | InsertInto n cols vals \<Rightarrow>
          (case map_of (db_tables d) n of
             None \<Rightarrow> (Inl (OperationalError (''no such table: '' @ n)), d)
           | Some tb \<Rightarrow>
               if length cols \<noteq> length vals
               then (Inl (OperationalError ''values do not match columns''), d)
               else
                 (let d1 = begin_implicit d in
                  case bind_values params vals of
                    None \<Rightarrow> (Inl (ProgrammingError ''You did not supply a value for a binding''), d1)
                  | Some vs \<Rightarrow>
                      (case chk n tb (zip cols vs) of
                         Inl e \<Rightarrow> (Inl e, d1)
                       | Inr rid \<Rightarrow>
                           (Inr \<lparr>lastrowid = Some rid\<rparr>,
                            d1\<lparr>db_tables :=
                                 AList.update n (tb\<lparr>t_rows := t_rows tb @ [(rid, zip cols vs)]\<rparr>)
                                   (db_tables d1)\<rparr>))))
      | SelectCountMaster \<Rightarrow> (Inr no_rows, d)
      | SelectAll n \<Rightarrow>
          (case map_of (db_tables d) n of
             None \<Rightarrow> (Inl (OperationalError (''no such table: '' @ n)), d)
           | Some tb \<Rightarrow> (Inr no_rows, d)))"

definition sqlite_execute :: "integrity \<Rightarrow> string \<Rightarrow> bindings \<Rightarrow> sqlite_db \<Rightarrow> (error + cursor) \<times> sqlite_db" where
  "sqlite_execute chk sql params d =
     (case parse sql of
        None \<Rightarrow> (Inl (OperationalError ''syntax error''), d)
      | Some st \<Rightarrow> run chk sql st params d)"

definition sqlite :: "integrity \<Rightarrow> sqlite_db connection" where
  "sqlite chk = \<lparr>execute = sqlite_execute chk, commit = sqlite_commit, rollback = sqlite_rollback\<rparr>"

text \<open>An engine that checks nothing of a row and numbers the rows of a table from 1.\<close>

definition accept_all :: integrity where
  "accept_all n tb r = Inr (int (length (t_rows tb)) + 1)"

definition empty_db :: sqlite_db where
  "empty_db = \<lparr>db_tables = [], db_saved = None\<rparr>"

definition start :: "'c \<Rightarrow> 'c world" where
  "start e = \<lparr>engine = e, calls = [], printed = []\<rparr>"

definition has_table :: "sqlite_db \<Rightarrow> string \<Rightarrow> bool" where
  "has_table d n \<longleftrightarrow> map_of (db_tables d) n \<noteq> None"

definition rows_of :: "sqlite_db \<Rightarrow> string \<Rightarrow> (int \<times> bindings) list" where
  "rows_of d n = (case map_of (db_tables d) n of None \<Rightarrow> [] | Some tb \<Rightarrow> t_rows tb)"

subsection \<open>Cursors left unread\<close>

text \<open>
  \<open>sqlite\<close> is the engine seen through a connection on which no cursor is left unread:
  every statement has run to its end before the next call. That is so for the calls of
  \<open>ustvari\<close>, \<open>izbrisi\<close>, \<open>izprazni\<close> and \<open>dodaj_vrstico\<close>, whose statements return
  no rows. A \<open>SELECT\<close> that returns a row is different: until its cursor is read to the
  end or closed, its statement stays active on the connection, and while a statement is
  active the engine refuses to drop a table that exists (the error is
  \<open>database table is locked\<close>); dropping a table that does not exist, creating a table
  and changing rows are not refused. \<open>sqlite3\<close> is the engine seen through a
  connection that keeps its cursors, as \<open>ustvari_bazo_ce_ne_obstaja\<close> keeps the one it
  binds to \<open>cur\<close>: its state is the store and the number of cursors left unread. The
  count over \<open>sqlite_master\<close> always returns one row; \<open>SELECT *\<close> returns a row when
  the table has one.
\<close>

record sqlite_session =
  s_db :: sqlite_db
  s_unread :: nat

definition leaves_cursor :: "statement \<Rightarrow> sqlite_db \<Rightarrow> bool" where
  "leaves_cursor st d =
     (case st of
        SelectCountMaster \<Rightarrow> True
      | SelectAll n \<Rightarrow> rows_of d n \<noteq> []
      | _ \<Rightarrow> False)"

definition blocked :: "statement \<Rightarrow> sqlite_session \<Rightarrow> bool" where
  "blocked st s =
     (case st of
        DropTableIfExists n \<Rightarrow> has_table (s_db s) n \<and> 0 < s_unread s
      | _ \<Rightarrow> False)"

definition sqlite3_execute ::
  "integrity \<Rightarrow> string \<Rightarrow> bindings \<Rightarrow> sqlite_session \<Rightarrow> (error + cursor) \<times> sqlite_session" where
  "sqlite3_execute chk sql params s =
     (case parse sql of
        None \<Rightarrow> (Inl (OperationalError ''syntax error''), s)
      | Some st \<Rightarrow>
          if blocked st s then (Inl (OperationalError ''database table is locked''), s)
          else
            (case run chk sql st params (s_db s) of
               (Inl e, d) \<Rightarrow> (Inl e, s\<lparr>s_db := d\<rparr>)
             | (Inr cur, d) \<Rightarrow>
                 (Inr cur,
                  s\<lparr>s_db := d,
                    s_unread := s_unread s + (if leaves_cursor st d then 1 else 0)\<rparr>)))"

definition sqlite3 :: "integrity \<Rightarrow> sqlite_session connection" where
  "sqlite3 chk =
     \<lparr>execute = sqlite3_execute chk,
      commit = (\<lambda>s. s\<lparr>s_db := sqlite_commit (s_db s)\<rparr>),
      rollback = (\<lambda>s. s\<lparr>s_db := sqlite_rollback (s_db s)\<rparr>)\<rparr>"

text \<open>A connection just opened on a store: no cursor yet.\<close>

definition connect :: "sqlite_db \<Rightarrow> sqlite_session" where
  "connect d = \<lparr>s_db = d, s_unread = 0\<rparr>"

section \<open>Connections and stores used in the statements below\<close>

text \<open>
  A connection that behaves as \<open>conn\<close> does, except that every cursor it returns is
  changed by \<open>f\<close>: what the caller can read from a cursor is different, what the engine
  does is the same.
\<close>

definition with_cursors :: "(cursor \<Rightarrow> cursor) \<Rightarrow> 'c connection \<Rightarrow> 'c connection" where
  "with_cursors f conn =
     conn\<lparr>execute := \<lambda>sql params c.
             case execute conn sql params c of (r, c') \<Rightarrow> (map_sum id f r, c')\<rparr>"

text \<open>
  A store that is already populated: a customer table with two rows and a clothing
  table with one.
\<close>

definition sample_db :: sqlite_db where
  "sample_db =
     \<lparr>db_tables =
        [(''stranka'',
          \<lparr>t_sql = the (ustvari_sql Stranka),
           t_rows = [(1, [(''first_name'', Some ''Bor''), (''last_name'', Some ''Novak'')]),
                     (2, [(''first_name'', Some ''Cene''), (''last_name'', Some ''Zupan'')])]\<rparr>),
         (''oblacilo'',
          \<lparr>t_sql = the (ustvari_sql Oblacila),
           t_rows = [(1, [(''ID'', Some ''X9''), (''size'', Some ''M'')])]\<rparr>)],
      db_saved = None\<rparr>"

text \<open>
  Five data files: one customer record, one inventory record whose last field is
  empty, and three files with a header only.
\<close>

definition sample_files :: files where
  "sample_files pot encoding =
     (if pot = ''podatki/stranka.csv'' then
        Inr [[''first_name'', ''last_name'', ''email'', ''gender'', ''ip_address''],
             [''Ana'', ''Kos'', ''ana@x.io'', ''F'', ''1.2.3.4'']]
      else if pot = ''podatki/oblacila.csv'' then
        Inr [[''clothing_type'', ''size'', ''color'', ''brand'', ''material'', ''price'',
              ''season'', ''ID'']]
      else if pot = ''podatki/zaloga.csv'' then
        Inr [[''id_dobave'', ''id_izdelka'', ''price'', ''quantity'', ''date_of_launch''],
             [''D1'', ''X9'', ''9.5'', ''3'', '''']]
      else if pot = ''podatki/kosarica.csv'' then
        Inr [[''cart_id'', ''product_id'', ''discount'']]
      else if pot = ''podatki/narocilo.csv'' then
        Inr [[''id_kosarice'', ''ID'', ''status'', ''status_2'']]
      else Inl OSError)"


section \<open>Dictionaries built from pairs\<close>

lemma update_fresh: "k \<notin> fst ` set al \<Longrightarrow> AList.update k v al = al @ [(k, v)]"
  by (induction al) auto

lemma foldl_update_distinct:
  "distinct (map fst acc @ map fst kvs) \<Longrightarrow>
   foldl (\<lambda>d (k, v). AList.update k v d) acc kvs = acc @ kvs"
proof (induction kvs arbitrary: acc)
  case Nil
  then show ?case by simp
next
  case (Cons kv kvs)
  obtain k v where kv: "kv = (k, v)" by (cases kv)
  from Cons.prems kv have fresh: "k \<notin> fst ` set acc" by auto
  from Cons.prems kv have "distinct (map fst (acc @ [(k, v)]) @ map fst kvs)" by auto
  from Cons.IH [OF this] show ?case using fresh kv by (simp add: update_fresh)
qed

lemma dict_of_distinct: "distinct (map fst kvs) \<Longrightarrow> dict_of kvs = kvs"
  using foldl_update_distinct [of "[]" kvs] by (simp add: dict_of_def)

lemma map_of_foldl_update:
  "map_of (foldl (\<lambda>d (k, v). AList.update k v d) acc kvs) = map_of (rev kvs @ acc)"
proof (induction kvs arbitrary: acc)
  case Nil
  then show ?case by simp
next
  case (Cons kv kvs)
  obtain k v where kv: "kv = (k, v)" by (cases kv)
  show ?case
    by (simp add: Cons.IH kv update_conv' map_add_def fun_eq_iff split: option.splits)
qed

lemma map_of_dict_of: "map_of (dict_of kvs) = map_of (rev kvs)"
  using map_of_foldl_update [of "[]" kvs] by (simp add: dict_of_def)

lemma keys_foldl_update:
  "fst ` set (foldl (\<lambda>d (k, v). AList.update k v d) acc kvs) = fst ` set acc \<union> fst ` set kvs"
proof (induction kvs arbitrary: acc)
  case Nil
  then show ?case by simp
next
  case (Cons kv kvs)
  obtain k v where kv: "kv = (k, v)" by (cases kv)
  have "fst ` set (foldl (\<lambda>d (k, v). AList.update k v d) (AList.update k v acc) kvs)
      = fst ` set (AList.update k v acc) \<union> fst ` set kvs" by (rule Cons.IH)
  also have "\<dots> = fst ` set acc \<union> fst ` set ((k, v) # kvs)"
    by (simp only: dom_update) auto
  finally show ?case by (simp add: kv)
qed

lemma keys_dict_of: "fst ` set (dict_of kvs) = fst ` set kvs"
  using keys_foldl_update [of "[]" kvs] by (simp add: dict_of_def)

lemma distinct_foldl_update:
  "distinct (map fst acc) \<Longrightarrow>
   distinct (map fst (foldl (\<lambda>d (k, v). AList.update k v d) acc kvs))"
  by (induction kvs arbitrary: acc) (auto simp: distinct_update split: prod.splits)

lemma distinct_dict_of: "distinct (map fst (dict_of kvs))"
  using distinct_foldl_update [of "[]" kvs] by (simp add: dict_of_def)

lemma zip_pairs_fst:
  "map fst (map (\<lambda>(k, v). (k, f v)) (zip ks vs)) = take (length vs) ks"
proof -
  have "map fst (map (\<lambda>(k, v). (k, f v)) (zip ks vs)) = map fst (zip ks vs)" by auto
  also have "\<dots> = take (length vs) ks" by (simp add: map_fst_zip_take min_def)
  finally show ?thesis .
qed

lemma zip_conv:
  "length ks = length vs \<Longrightarrow> map (\<lambda>(k, v). (k, f v)) (zip ks vs) = zip ks (map f vs)"
  by (induction ks vs rule: list_induct2) auto

lemma zip_min:
  "zip xs ys = zip (take (min (length xs) (length ys)) xs) (take (min (length xs) (length ys)) ys)"
proof -
  have "zip xs ys = take (min (length xs) (length ys)) (zip xs ys)" by simp
  then show ?thesis by (simp only: take_zip)
qed

section \<open>Decoding a record\<close>

text \<open>
  C2, as stated, fails when a header name repeats: the dictionary has one entry for the
  name, and the value read under its earlier occurrence is not in the result.
\<close>

theorem vrstica_slovar_repeated_header:
  "length [''id'', ''id''] = length [''1'', ''2'']
   \<and> vrstica_slovar [''id'', ''id''] [''1'', ''2''] = [(''id'', Some ''2'')]
   \<and> (''id'', Some ''1'') \<notin> set (vrstica_slovar [''id'', ''id''] [''1'', ''2''])"
  by (simp add: vrstica_slovar_def dict_of_def prazno_v_None_def)

text \<open>
  C2 (amended). For a header with no repeated name and a record of the same length, the
  decoded record pairs the i-th header name with the i-th raw value, the empty string
  turned into \<open>None\<close> and every other value kept as it is. With or without repeated
  names, the decoded record has each name once and, under a name, the converted value of
  the last position that carries the name.
\<close>

theorem vrstica_slovar_positional:
  assumes "length stolpci = length vrstica"
  shows "(distinct stolpci \<longrightarrow>
            vrstica_slovar stolpci vrstica = zip stolpci (map prazno_v_None vrstica)
          \<and> (\<forall>i < length vrstica.
                vrstica_slovar stolpci vrstica ! i =
                  (stolpci ! i, if vrstica ! i = '''' then None else Some (vrstica ! i))))
       \<and> distinct (map fst (vrstica_slovar stolpci vrstica))
       \<and> map_of (vrstica_slovar stolpci vrstica) =
           map_of (rev (zip stolpci (map prazno_v_None vrstica)))"
proof -
  let ?kvs = "map (\<lambda>(k, v). (k, prazno_v_None v)) (zip stolpci vrstica)"
  have pairs: "?kvs = zip stolpci (map prazno_v_None vrstica)"
    using assms by (rule zip_conv)
  have keys: "map fst ?kvs = stolpci"
    using assms by (simp only: zip_pairs_fst) simp
  have one: "vrstica_slovar stolpci vrstica = zip stolpci (map prazno_v_None vrstica)"
    if "distinct stolpci"
    unfolding vrstica_slovar_def using dict_of_distinct [of ?kvs] that keys pairs by simp
  have two: "distinct (map fst (vrstica_slovar stolpci vrstica))"
    unfolding vrstica_slovar_def by (rule distinct_dict_of)
  have three: "map_of (vrstica_slovar stolpci vrstica) =
      map_of (rev (zip stolpci (map prazno_v_None vrstica)))"
    unfolding vrstica_slovar_def using map_of_dict_of [of ?kvs] pairs by simp
  show ?thesis using one two three assms by (simp add: prazno_v_None_def)
qed

theorem vrstica_slovar_positional_witness:
  "length [''first_name'', ''email''] = length [''Ana'', '''']
   \<and> distinct [''first_name'', ''email'']
   \<and> vrstica_slovar [''first_name'', ''email''] [''Ana'', ''''] =
       [(''first_name'', Some ''Ana''), (''email'', None)]"
  using vrstica_slovar_positional [of "[''first_name'', ''email'']" "[''Ana'', '''']"]
  by (simp add: prazno_v_None_def)

text \<open>
  C10. A record with fewer or more values than the header has names is decoded as the
  record and the header cut to the shorter of the two: the names of the decoded record
  are the header names that have a value, a value beyond the header is dropped, and the
  record is then inserted as any other, with no error for the mismatch.
\<close>

theorem vrstica_slovar_truncates:
  "vrstica_slovar stolpci vrstica =
     vrstica_slovar (take (min (length stolpci) (length vrstica)) stolpci)
                    (take (min (length stolpci) (length vrstica)) vrstica)
   \<and> set (map fst (vrstica_slovar stolpci vrstica)) = set (take (length vrstica) stolpci)
   \<and> uvozi_vrstica conn t stolpci vrstica w =
       uvozi_vrstica conn t (take (min (length stolpci) (length vrstica)) stolpci)
                            (take (min (length stolpci) (length vrstica)) vrstica) w"
proof -
  have cut: "vrstica_slovar stolpci vrstica =
     vrstica_slovar (take (min (length stolpci) (length vrstica)) stolpci)
                    (take (min (length stolpci) (length vrstica)) vrstica)"
    unfolding vrstica_slovar_def using zip_min [of stolpci vrstica] by simp
  have "set (map fst (vrstica_slovar stolpci vrstica))
      = set (map fst (map (\<lambda>(k, v). (k, prazno_v_None v)) (zip stolpci vrstica)))"
    unfolding vrstica_slovar_def using keys_dict_of by (metis set_map)
  then have names: "set (map fst (vrstica_slovar stolpci vrstica)) = set (take (length vrstica) stolpci)"
    by (simp only: zip_pairs_fst)
  have ins: "uvozi_vrstica conn t stolpci vrstica w =
       uvozi_vrstica conn t (take (min (length stolpci) (length vrstica)) stolpci)
                            (take (min (length stolpci) (length vrstica)) vrstica) w"
    unfolding uvozi_vrstica_def using cut by simp
  show ?thesis using cut names ins by blast
qed

theorem vrstica_slovar_truncates_witness:
  "vrstica_slovar [''a'', ''b'', ''c''] [''1''] = [(''a'', Some ''1'')]
   \<and> vrstica_slovar [''a''] [''1'', ''2'', ''3''] = [(''a'', Some ''1'')]"
  using vrstica_slovar_truncates [of "[''a'', ''b'', ''c'']" "[''1'']"]
        vrstica_slovar_truncates [of "[''a'']" "[''1'', ''2'', ''3'']"]
  by (simp add: vrstica_slovar_def dict_of_def prazno_v_None_def)

section \<open>How the engine model reads the statements of the module\<close>

subsection \<open>Drop, delete, create and count\<close>

lemma parse_drop_each:
  "parse (''DROP TABLE IF EXISTS '' @ fmt (ime Tabela) @ '';'') = Some (DropTableIfExists (fmt (ime Tabela)))"
  "parse (''DROP TABLE IF EXISTS '' @ fmt (ime Stranka) @ '';'') = Some (DropTableIfExists (fmt (ime Stranka)))"
  "parse (''DROP TABLE IF EXISTS '' @ fmt (ime Oblacila) @ '';'') = Some (DropTableIfExists (fmt (ime Oblacila)))"
  "parse (''DROP TABLE IF EXISTS '' @ fmt (ime Zaloga) @ '';'') = Some (DropTableIfExists (fmt (ime Zaloga)))"
  "parse (''DROP TABLE IF EXISTS '' @ fmt (ime Kosarica) @ '';'') = Some (DropTableIfExists (fmt (ime Kosarica)))"
  "parse (''DROP TABLE IF EXISTS '' @ fmt (ime Narocilo) @ '';'') = Some (DropTableIfExists (fmt (ime Narocilo)))"
  by code_simp+

lemma parse_drop:
  "parse (''DROP TABLE IF EXISTS '' @ fmt (ime t) @ '';'') = Some (DropTableIfExists (fmt (ime t)))"
  by (cases t) (simp_all only: parse_drop_each)

lemma parse_delete_each:
  "parse (''DELETE FROM '' @ fmt (ime Tabela) @ '';'') = Some (DeleteFrom (fmt (ime Tabela)))"
  "parse (''DELETE FROM '' @ fmt (ime Stranka) @ '';'') = Some (DeleteFrom (fmt (ime Stranka)))"
  "parse (''DELETE FROM '' @ fmt (ime Oblacila) @ '';'') = Some (DeleteFrom (fmt (ime Oblacila)))"
  "parse (''DELETE FROM '' @ fmt (ime Zaloga) @ '';'') = Some (DeleteFrom (fmt (ime Zaloga)))"
  "parse (''DELETE FROM '' @ fmt (ime Kosarica) @ '';'') = Some (DeleteFrom (fmt (ime Kosarica)))"
  "parse (''DELETE FROM '' @ fmt (ime Narocilo) @ '';'') = Some (DeleteFrom (fmt (ime Narocilo)))"
  by code_simp+

lemma parse_delete:
  "parse (''DELETE FROM '' @ fmt (ime t) @ '';'') = Some (DeleteFrom (fmt (ime t)))"
  by (cases t) (simp_all only: parse_delete_each)

lemma parse_create_each:
  "parse (the (ustvari_sql Stranka)) = Some (CreateTable (fmt (ime Stranka)))"
  "parse (the (ustvari_sql Oblacila)) = Some (CreateTable (fmt (ime Oblacila)))"
  "parse (the (ustvari_sql Zaloga)) = Some (CreateTable (fmt (ime Zaloga)))"
  "parse (the (ustvari_sql Kosarica)) = Some (CreateTable (fmt (ime Kosarica)))"
  "parse (the (ustvari_sql Narocilo)) = Some (CreateTable (fmt (ime Narocilo)))"
  by code_simp+

lemma parse_create:
  "t \<noteq> Tabela \<Longrightarrow> parse (the (ustvari_sql t)) = Some (CreateTable (fmt (ime t)))"
  by (cases t) (simp_all only: parse_create_each, simp)

lemma ustvari_sql_Some: "t \<noteq> Tabela \<Longrightarrow> ustvari_sql t = Some (the (ustvari_sql t))"
  by (cases t) simp_all

lemma ustvari_sql_parse:
  assumes "t \<noteq> Tabela"
  obtains sql where "ustvari_sql t = Some sql" and "parse sql = Some (CreateTable (fmt (ime t)))"
  using assms parse_create [OF assms] by (cases t) auto

lemma parse_count: "parse ''SELECT COUNT(*) FROM sqlite_master'' = Some SelectCountMaster"
  by code_simp

subsection \<open>Insert\<close>

lemma parse_insert_text:
  "parse (''\<newline>'' @ ''            INSERT INTO '' @ r) = parse_insert r"
  by (simp add: parse_def keyword_def skip_space_def is_space_def)

lemma table_name_ime:
  "table_name (fmt (ime t) @ '' ('' @ r) = Some (fmt (ime t), '' ('' @ r)"
  by (cases t) (simp_all add: table_name_def skip_space_def is_space_def is_ident_def fmt_def)



text \<open>Reading back the lists of an insert statement built over names.\<close>

lemma split_on_not_Nil: "split_on sep s \<noteq> []"
  by (induction s) (auto split: list.splits)

lemma split_on_clean:
  "sep \<notin> set x \<Longrightarrow> split_on sep (x @ r) = (x @ hd (split_on sep r)) # tl (split_on sep r)"
proof (induction x)
  case Nil
  then show ?case using split_on_not_Nil [of sep r] by (cases "split_on sep r") auto
next
  case (Cons c x)
  then show ?case by auto
qed

lemma split_on_clean_end: "sep \<notin> set x \<Longrightarrow> split_on sep x = [x]"
  using split_on_clean [of sep x "[]"] by simp

lemma split_on_join:
  assumes "\<forall>x \<in> set (x # xs). CHR '','' \<notin> set x"
  shows "split_on (CHR '','') (join '', '' (x # xs)) = x # map (\<lambda>y. '' '' @ y) xs"
  using assms
proof (induction xs arbitrary: x)
  case Nil
  then show ?case by (simp add: split_on_clean_end)
next
  case (Cons y ys)
  have "join '', '' (x # y # ys) = x @ CHR '','' # ('' '' @ join '', '' (y # ys))" by simp
  moreover have "split_on (CHR '','') ('' '' @ join '', '' (y # ys)) =
      ('' '' @ y) # map (\<lambda>y. '' '' @ y) ys"
    using Cons.IH [of y] Cons.prems by simp
  ultimately show ?case using Cons.prems
    by (simp add: split_on_clean del: join.simps)
qed

lemma skip_space_clean: "clean x \<Longrightarrow> skip_space (x @ r) = x @ r"
  by (cases x) (auto simp: clean_def skip_space_def)

lemma trim_clean: "clean x \<Longrightarrow> trim x = x" and trim_space_clean: "clean x \<Longrightarrow> trim ('' '' @ x) = x"
proof -
  assume c: "clean x"
  then have ne: "x \<noteq> []" and last: "\<not> is_space (last x)" and first: "\<not> is_space (hd x)"
    by (auto simp: clean_def)
  have a: "skip_space x = x" using ne first by (cases x) (auto simp: skip_space_def)
  have b: "skip_space (rev x) = rev x"
    using ne last by (cases "rev x") (auto simp: skip_space_def last_rev [symmetric] simp del: last_rev)
  show "trim x = x" by (simp add: trim_def a b)
  have "skip_space ('' '' @ x) = x" using a by (simp add: skip_space_def is_space_def)
  then show "trim ('' '' @ x) = x" by (simp add: trim_def b del: append.simps)
qed

lemma items_join:
  assumes "xs \<noteq> []" and "list_all clean xs"
  shows "items (join '', '' xs) = xs"
proof -
  from assms obtain x ys where xs: "xs = x # ys" by (cases xs) auto
  with assms have cx: "clean x" and cys: "list_all clean ys" by auto
  have first: "skip_space (join '', '' xs) \<noteq> []"
  proof (cases ys)
    case Nil
    with xs cx skip_space_clean [of x "[]"] show ?thesis by (auto simp: clean_def)
  next
    case (Cons y zs)
    with xs cx skip_space_clean [of x "'', '' @ join '', '' (y # zs)"] show ?thesis
      by (auto simp: clean_def)
  qed
  have nc: "\<forall>z \<in> set (x # ys). CHR '','' \<notin> set z"
    using cx cys by (auto simp: clean_def list_all_iff)
  have "map trim (split_on (CHR '','') (join '', '' (x # ys))) = x # ys"
    unfolding split_on_join [OF nc]
    using cx cys by (induction ys) (simp_all add: trim_clean trim_space_clean del: append.simps)
  with first xs show ?thesis by (simp add: items_def)
qed

lemma join_no_paren:
  "list_all clean xs \<Longrightarrow> CHR '')'' \<notin> set (join '', '' xs)"
  by (induction "'', ''" xs rule: join.induct) (auto simp: clean_def)

lemma is_ident_clean: "is_ident c \<Longrightarrow> c \<noteq> CHR '','' \<and> c \<noteq> CHR '')'' \<and> \<not> is_space c"
  by (auto simp: is_ident_def is_space_def)

lemma is_name_clean: "is_name x \<Longrightarrow> clean x"
  using is_ident_clean by (auto simp: is_name_def clean_def list_all_iff)

lemma placeholder_clean: "is_name x \<Longrightarrow> clean (PARAM_FMT_format x)"
  using is_ident_clean by (auto simp: is_name_def clean_def list_all_iff PARAM_FMT_format_def is_space_def)

lemma placeholder_ok: "is_name x \<Longrightarrow> is_placeholder (PARAM_FMT_format x)"
  by (simp add: is_placeholder_def PARAM_FMT_format_def)

lemma parenthesised_body:
  assumes "CHR '')'' \<notin> set body"
  shows "parenthesised ('' ('' @ body @ '')'' @ rest) = Some (body, rest)"
proof -
  have k: "keyword ''('' ('' ('' @ body @ '')'' @ rest) = Some (body @ '')'' @ rest)"
    by (simp add: keyword_def skip_space_def is_space_def)
  have t: "takeWhile (\<lambda>c. c \<noteq> CHR '')'') (body @ CHR '')'' # rest) = body"
    using assms by (induction body) auto
  have d: "dropWhile (\<lambda>c. c \<noteq> CHR '')'') (body @ CHR '')'' # rest) = CHR '')'' # rest"
    using assms by (induction body) auto
  show ?thesis unfolding parenthesised_def k by (simp add: t d)
qed

lemma parse_insert_frame:
  assumes "cols \<noteq> []" and "list_all is_name cols"
  shows "parse_insert (fmt (ime t) @ '' ('' @ join '', '' cols @ '')'' @
            (''\<newline>'' @ ''            VALUES'' @
             ('' ('' @ join '', '' (map PARAM_FMT_format cols) @ '')'' @ ('';\<newline>'' @ ''        ''))))
         = Some (InsertInto (fmt (ime t)) cols (map PARAM_FMT_format cols))"
proof -
  let ?vals = "map PARAM_FMT_format cols"
  let ?r3 = "'' ('' @ join '', '' ?vals @ '')'' @ ('';\<newline>'' @ ''        '')"
  let ?r2 = "''\<newline>'' @ ''            VALUES'' @ ?r3"
  have cc: "list_all clean cols" using assms(2) is_name_clean by (auto simp: list_all_iff)
  have cv: "list_all clean ?vals" using assms(2) placeholder_clean by (auto simp: list_all_iff)
  have pv: "list_all is_placeholder ?vals" using assms(2) placeholder_ok by (auto simp: list_all_iff)
  have vne: "?vals \<noteq> []" using assms(1) by simp
  have n: "table_name (fmt (ime t) @ '' ('' @ join '', '' cols @ '')'' @ ?r2) =
      Some (fmt (ime t), '' ('' @ join '', '' cols @ '')'' @ ?r2)"
    by (rule table_name_ime)
  have p1: "parenthesised ('' ('' @ join '', '' cols @ '')'' @ ?r2) = Some (join '', '' cols, ?r2)"
    by (rule parenthesised_body [OF join_no_paren [OF cc]])
  have k: "keyword ''VALUES'' ?r2 = Some ?r3"
    by (simp add: keyword_def skip_space_def is_space_def)
  have p2: "parenthesised ?r3 = Some (join '', '' ?vals, '';\<newline>'' @ ''        '')"
    by (rule parenthesised_body [OF join_no_paren [OF cv]])
  have e: "end_of_statement ('';\<newline>'' @ ''        '')"
    by (simp add: end_of_statement_def skip_space_def is_space_def)
  show ?thesis
    unfolding parse_insert_def n option.case prod.case p1 k p2
    using e assms pv vne by (simp add: items_join [OF assms(1) cc] items_join [OF vne cv])
qed

lemma parse_dodajanje_names:
  assumes "cols \<noteq> []" and "list_all is_name cols" and "dodajanje t (Some cols) = Inr sql"
  shows "parse sql = Some (InsertInto (fmt (ime t)) cols (map PARAM_FMT_format cols))"
proof -
  from assms(3) have "sql = ''\<newline>'' @ ''            INSERT INTO '' @
      (fmt (ime t) @ '' ('' @ join '', '' cols @ '')'' @
            (''\<newline>'' @ ''            VALUES'' @
             ('' ('' @ join '', '' (map PARAM_FMT_format cols) @ '')'' @ ('';\<newline>'' @ ''        ''))))"
    by (simp add: dodajanje_def)
  then show ?thesis
    by (simp only: parse_insert_text parse_insert_frame [OF assms(1,2)])
qed

lemma bind_values_present:
  assumes "distinct (map fst ps)"
  shows "bind_values ps (map PARAM_FMT_format (map fst ps)) = Some (map snd ps)"
proof -
  have each: "map_of ps k = Some v" if "(k, v) \<in> set ps" for k v
    using assms that by simp
  have a: "list_all (\<lambda>v. map_of ps (tl v) \<noteq> None) (map PARAM_FMT_format (map fst ps))"
    using each by (auto simp: list_all_iff PARAM_FMT_format_def)
  have b: "map (\<lambda>v. the (map_of ps (tl v))) (map PARAM_FMT_format (map fst ps)) = map snd ps"
    using each by (auto simp: PARAM_FMT_format_def)
  show ?thesis by (simp only: bind_values_def a b if_True)
qed

lemma parse_no_fields_each:
  "parse (projr (dodajanje Tabela (Some []))) = None"
  "parse (projr (dodajanje Stranka (Some []))) = None"
  "parse (projr (dodajanje Oblacila (Some []))) = None"
  "parse (projr (dodajanje Zaloga (Some []))) = None"
  "parse (projr (dodajanje Kosarica (Some []))) = None"
  "parse (projr (dodajanje Narocilo (Some []))) = None"
  by code_simp+

lemma parse_no_fields: "parse (projr (dodajanje t (Some []))) = None"
  by (cases t) (simp_all only: parse_no_fields_each)

lemma is_name_examples:
  "is_name ''first_name''" "is_name ''last_name''" "is_name ''email''" "is_name ''gender''"
  "is_name ''ip_address''" "is_name ''id_dobave''" "is_name ''id_izdelka''" "is_name ''price''"
  "is_name ''quantity''"
  by code_simp+

section \<open>The insert statement\<close>

text \<open>
  C3. The statement text is the fixed frame around two comma-separated lists made from
  the same sequence of names: the names themselves, and the names each behind a colon.
  The two lists have the same length, and the i-th placeholder is the i-th column name
  behind a colon. When the sequence is not empty and its members are names (letters,
  digits and underscores), the engine reads the text back as an insert into the table
  with exactly that column list and that placeholder list.
\<close>

theorem dodajanje_aligned:
  "dodajanje t (Some stolpci) =
     Inr (''\<newline>'' @
          ''            INSERT INTO '' @ fmt (ime t) @ '' ('' @ join '', '' stolpci @ '')\<newline>'' @
          ''            VALUES ('' @ join '', '' (map PARAM_FMT_format stolpci) @ '');\<newline>'' @
          ''        '')
   \<and> length (map PARAM_FMT_format stolpci) = length stolpci
   \<and> (\<forall>i < length stolpci. map PARAM_FMT_format stolpci ! i = '':'' @ stolpci ! i)
   \<and> (stolpci \<noteq> [] \<and> list_all is_name stolpci \<longrightarrow>
        parse (''\<newline>'' @
          ''            INSERT INTO '' @ fmt (ime t) @ '' ('' @ join '', '' stolpci @ '')\<newline>'' @
          ''            VALUES ('' @ join '', '' (map PARAM_FMT_format stolpci) @ '');\<newline>'' @
          ''        '') =
          Some (InsertInto (fmt (ime t)) stolpci (map PARAM_FMT_format stolpci)))"
proof -
  let ?sql = "''\<newline>'' @
          ''            INSERT INTO '' @ fmt (ime t) @ '' ('' @ join '', '' stolpci @ '')\<newline>'' @
          ''            VALUES ('' @ join '', '' (map PARAM_FMT_format stolpci) @ '');\<newline>'' @
          ''        ''"
  have a: "dodajanje t (Some stolpci) = Inr ?sql" by (simp add: dodajanje_def)
  have b: "length (map PARAM_FMT_format stolpci) = length stolpci" by simp
  have c: "\<forall>i < length stolpci. map PARAM_FMT_format stolpci ! i = '':'' @ stolpci ! i"
    by (simp add: PARAM_FMT_format_def)
  have d: "parse ?sql = Some (InsertInto (fmt (ime t)) stolpci (map PARAM_FMT_format stolpci))"
    if "stolpci \<noteq> []" and "list_all is_name stolpci"
    using that a by (rule parse_dodajanje_names)
  from a b c d show ?thesis by blast
qed

theorem dodajanje_aligned_witness:
  "[''first_name'', ''email''] \<noteq> [] \<and> list_all is_name [''first_name'', ''email'']
   \<and> dodajanje Stranka (Some [''first_name'', ''email'']) =
     Inr (''\<newline>'' @
          ''            INSERT INTO stranka (first_name, email)\<newline>'' @
          ''            VALUES (:first_name, :email);\<newline>'' @
          ''        '')
   \<and> parse (''\<newline>'' @
          ''            INSERT INTO stranka (first_name, email)\<newline>'' @
          ''            VALUES (:first_name, :email);\<newline>'' @
          ''        '') =
       Some (InsertInto ''stranka'' [''first_name'', ''email''] ['':first_name'', '':email''])"
  using dodajanje_aligned [of Stranka "[''first_name'', ''email'']"] is_name_examples
  by (simp add: PARAM_FMT_format_def fmt_def)

section \<open>Single calls on the engine model\<close>


lemma ustvari_sqlite_new:
  assumes "t \<noteq> Tabela" and "map_of (db_tables (engine w)) (fmt (ime t)) = None"
  shows "ustvari (sqlite chk) t w =
     (Inr (), w\<lparr>engine := (engine w)\<lparr>db_tables := db_tables (engine w) @
                    [(fmt (ime t), \<lparr>t_sql = the (ustvari_sql t), t_rows = []\<rparr>)]\<rparr>,
               calls := calls w @ [Execute (the (ustvari_sql t)) []]\<rparr>)"
proof -
  from assms(1) obtain sql where s: "ustvari_sql t = Some sql"
    and p: "parse sql = Some (CreateTable (fmt (ime t)))" by (rule ustvari_sql_parse)
  show ?thesis
    unfolding ustvari_def conn_execute_def
    using assms(2) by (simp add: s p sqlite_def sqlite_execute_def run_def)
qed

lemma ustvari_sqlite_exists:
  assumes "t \<noteq> Tabela" and "map_of (db_tables (engine w)) (fmt (ime t)) = Some tb"
  shows "ustvari (sqlite chk) t w =
     (Inl (OperationalError (''table '' @ fmt (ime t) @ '' already exists'')),
      w\<lparr>calls := calls w @ [Execute (the (ustvari_sql t)) []]\<rparr>)"
proof -
  from assms(1) obtain sql where s: "ustvari_sql t = Some sql"
    and p: "parse sql = Some (CreateTable (fmt (ime t)))" by (rule ustvari_sql_parse)
  show ?thesis
    unfolding ustvari_def conn_execute_def
    using assms(2) by (simp add: s p sqlite_def sqlite_execute_def run_def)
qed

lemma izprazni_sqlite:
  assumes "map_of (db_tables (engine w)) (fmt (ime t)) = Some tb"
  shows "izprazni (sqlite chk) t w =
     (Inr (), w\<lparr>engine := (begin_implicit (engine w))\<lparr>db_tables :=
                    AList.update (fmt (ime t)) (tb\<lparr>t_rows := []\<rparr>) (db_tables (engine w))\<rparr>,
               calls := calls w @ [Execute (''DELETE FROM '' @ fmt (ime t) @ '';'') []]\<rparr>)"
proof -
  have same: "db_tables (begin_implicit (engine w)) = db_tables (engine w)"
    by (simp add: begin_implicit_def split: option.splits)
  show ?thesis
    unfolding izprazni_def conn_execute_def
    using assms
    by (simp add: sqlite_def sqlite_execute_def parse_delete run_def Let_def same
        del: append.simps)
qed



lemma update_keeps_keys:
  "map_of al k = Some v \<Longrightarrow> map fst (AList.update k v' al) = map fst al"
  by (induction al) (auto split: if_splits)

lemma dodaj_vrstico_sqlite:
  fixes kwargs :: bindings
  defines "present \<equiv> filter (\<lambda>(kljuc, vrednost). vrednost \<noteq> None) kwargs"
  assumes tb: "map_of (db_tables (engine w)) (fmt (ime t)) = Some tb"
    and ne: "present \<noteq> []"
    and names: "list_all is_name (map fst present)"
    and dist: "distinct (map fst present)"
    and sql: "dodajanje t (Some (map fst present)) = Inr sql"
  shows "dodaj_vrstico (sqlite chk) t kwargs w =
     (case chk (fmt (ime t)) tb present of
        Inl e \<Rightarrow>
          (Inl e, w\<lparr>engine := begin_implicit (engine w),
                    calls := calls w @ [Execute sql present]\<rparr>)
      | Inr rid \<Rightarrow>
          (Inr (Some rid),
           w\<lparr>engine := (begin_implicit (engine w))\<lparr>db_tables :=
                 AList.update (fmt (ime t)) (tb\<lparr>t_rows := t_rows tb @ [(rid, present)]\<rparr>)
                   (db_tables (engine w))\<rparr>,
             calls := calls w @ [Execute sql present]\<rparr>))"
proof -
  have ne': "map fst present \<noteq> []" using ne by simp
  have p: "parse sql = Some (InsertInto (fmt (ime t)) (map fst present)
      (map PARAM_FMT_format (map fst present)))"
    by (rule parse_dodajanje_names [OF ne' names sql])
  have same: "db_tables (begin_implicit (engine w)) = db_tables (engine w)"
    by (simp add: begin_implicit_def split: option.splits)
  have z: "zip (map fst present) (map snd present) = present" by (simp add: zip_map_fst_snd)
  have bv: "bind_values present (map (PARAM_FMT_format \<circ> fst) present) = Some (map snd present)"
    using bind_values_present [OF dist] by simp
  have run: "sqlite_execute chk sql present (engine w) =
     (case chk (fmt (ime t)) tb present of
        Inl e \<Rightarrow> (Inl e, begin_implicit (engine w))
      | Inr rid \<Rightarrow>
          (Inr \<lparr>lastrowid = Some rid\<rparr>,
           (begin_implicit (engine w))\<lparr>db_tables :=
                 AList.update (fmt (ime t)) (tb\<lparr>t_rows := t_rows tb @ [(rid, present)]\<rparr>)
                   (db_tables (engine w))\<rparr>))"
    by (simp add: sqlite_execute_def p run_def tb Let_def bv z same split: sum.splits)
  show ?thesis
    unfolding dodaj_vrstico_def Let_def present_def [symmetric] sql sum.case conn_execute_def
    by (simp add: sqlite_def run split: sum.splits)
qed

lemma dodaj_vrstico_sqlite_text:
  assumes "has_table (engine w) (fmt (ime t))"
    and "filter (\<lambda>(kljuc, vrednost). vrednost \<noteq> None) kwargs \<noteq> []"
    and "list_all is_name (map fst (filter (\<lambda>(kljuc, vrednost). vrednost \<noteq> None) kwargs))"
    and "distinct (map fst (filter (\<lambda>(kljuc, vrednost). vrednost \<noteq> None) kwargs))"
  shows "dodaj_vrstico (sqlite chk) t kwargs w =
     (let present = filter (\<lambda>(kljuc, vrednost). vrednost \<noteq> None) kwargs;
          tb = the (map_of (db_tables (engine w)) (fmt (ime t)));
          sql = ''\<newline>'' @
          ''            INSERT INTO '' @ fmt (ime t) @ '' ('' @ join '', '' (map fst present) @ '')\<newline>'' @
          ''            VALUES ('' @ join '', '' (map PARAM_FMT_format (map fst present)) @ '');\<newline>'' @
          ''        ''
      in case chk (fmt (ime t)) tb present of
        Inl e \<Rightarrow>
          (Inl e, w\<lparr>engine := begin_implicit (engine w),
                    calls := calls w @ [Execute sql present]\<rparr>)
      | Inr rid \<Rightarrow>
          (Inr (Some rid),
           w\<lparr>engine := (begin_implicit (engine w))\<lparr>db_tables :=
                 AList.update (fmt (ime t)) (tb\<lparr>t_rows := t_rows tb @ [(rid, present)]\<rparr>)
                   (db_tables (engine w))\<rparr>,
             calls := calls w @ [Execute sql present]\<rparr>))"
proof -
  from assms(1) have tb: "map_of (db_tables (engine w)) (fmt (ime t)) =
      Some (the (map_of (db_tables (engine w)) (fmt (ime t))))"
    by (auto simp: has_table_def)
  show ?thesis
    unfolding Let_def
    by (rule dodaj_vrstico_sqlite [OF tb assms(2-4)]) (simp add: dodajanje_def)
qed

lemma filter_all_None:
  "list_all (\<lambda>(k, v). v = None) kwargs \<Longrightarrow> filter (\<lambda>(k, v). v \<noteq> None) kwargs = []"
  by (induction kwargs) auto

text \<open>
  The definitions that a run on the sample store and the sample files unfolds.
\<close>

lemmas sample_eval =
  start_def sample_db_def sample_files_def fmt_def accept_all_def begin_implicit_def
  sqlite_commit_def has_table_def rows_of_def PARAM_FMT_format_def is_name_examples
  vrstica_slovar_def dict_of_def prazno_v_None_def Let_def

section \<open>Inserting one row\<close>

text \<open>
  C1. \<open>dodaj_vrstico\<close> keeps the entries of its keyword dictionary whose value is not
  \<open>None\<close>, in their order; the statement it sends is the one \<open>dodajanje\<close> builds over
  the names of exactly those entries; it makes one \<open>execute\<close> call, with that statement
  and with those entries as bindings; and it returns the \<open>lastrowid\<close> of the cursor the
  call returns, or lets the error of the call through. This holds for every connection.
\<close>

theorem dodaj_vrstico_present_fields:
  "let present = filter (\<lambda>(kljuc, vrednost). vrednost \<noteq> None) kwargs;
       poizvedba = ''\<newline>'' @
          ''            INSERT INTO '' @ fmt (ime t) @ '' ('' @ join '', '' (map fst present) @ '')\<newline>'' @
          ''            VALUES ('' @ join '', '' (map PARAM_FMT_format (map fst present)) @ '');\<newline>'' @
          ''        ''
   in set present = {(k, v). (k, v) \<in> set kwargs \<and> v \<noteq> None}
    \<and> dodajanje t (Some (map fst present)) = Inr poizvedba
    \<and> dodaj_vrstico conn t kwargs w =
        (case execute conn poizvedba present (engine w) of
           (Inl e, c) \<Rightarrow>
             (Inl e, w\<lparr>engine := c, calls := calls w @ [Execute poizvedba present]\<rparr>)
         | (Inr cur, c) \<Rightarrow>
             (Inr (lastrowid cur), w\<lparr>engine := c, calls := calls w @ [Execute poizvedba present]\<rparr>))"
  by (auto simp add: Let_def dodaj_vrstico_def dodajanje_def conn_execute_def
      split: prod.splits sum.splits)

theorem dodaj_vrstico_present_fields_witness:
  "fst (dodaj_vrstico (sqlite accept_all) Stranka
          [(''first_name'', Some ''Ana''), (''email'', None), (''last_name'', Some ''Kos'')]
          (start sample_db)) = Inr (Some 3)
   \<and> calls (snd (dodaj_vrstico (sqlite accept_all) Stranka
          [(''first_name'', Some ''Ana''), (''email'', None), (''last_name'', Some ''Kos'')]
          (start sample_db))) =
       [Execute (''\<newline>'' @
                 ''            INSERT INTO stranka (first_name, last_name)\<newline>'' @
                 ''            VALUES (:first_name, :last_name);\<newline>'' @
                 ''        '')
          [(''first_name'', Some ''Ana''), (''last_name'', Some ''Kos'')]]
   \<and> rows_of (engine (snd (dodaj_vrstico (sqlite accept_all) Stranka
          [(''first_name'', Some ''Ana''), (''email'', None), (''last_name'', Some ''Kos'')]
          (start sample_db)))) ''stranka'' =
       rows_of sample_db ''stranka'' @
         [(3, [(''first_name'', Some ''Ana''), (''last_name'', Some ''Kos'')])]"
proof -
  have ev: ?thesis
    by (simp add: dodaj_vrstico_sqlite_text sample_eval)
  show ?thesis
    using dodaj_vrstico_present_fields
      [of "[(''first_name'', Some ''Ana''), (''email'', None), (''last_name'', Some ''Kos'')]"
        Stranka "sqlite accept_all" "start sample_db"]
    by - (rule ev)
qed

lemma dodaj_vrstico_no_fields:
  assumes "list_all (\<lambda>(k, v). v = None) kwargs"
  shows "dodaj_vrstico (sqlite chk) t kwargs w =
          (Inl (OperationalError ''syntax error''),
           w\<lparr>calls := calls w @
              [Execute (''\<newline>'' @
                        ''            INSERT INTO '' @ fmt (ime t) @ '' ()\<newline>'' @
                        ''            VALUES ();\<newline>'' @
                        ''        '') []]\<rparr>)"
proof -
  let ?sql = "''\<newline>'' @
          ''            INSERT INTO '' @ fmt (ime t) @ '' ()\<newline>'' @
          ''            VALUES ();\<newline>'' @
          ''        ''"
  have a: "dodajanje t (Some []) = Inr ?sql" by (simp add: dodajanje_def)
  have b: "parse ?sql = None" using parse_no_fields [of t] by (simp only: a sum.sel)
  show ?thesis
    unfolding dodaj_vrstico_def conn_execute_def
    by (simp only: filter_all_None [OF assms] Let_def list.map a sum.case)
       (simp add: sqlite_def sqlite_execute_def b del: append.simps)
qed

text \<open>
  C8. With no field, \<open>dodajanje\<close> raises nothing and returns a text with an empty column
  list and an empty value list; it raises only when it is given no sequence at all. The
  engine does not read that text as a statement, and \<open>dodaj_vrstico\<close> on a record whose
  values are all \<open>None\<close> sends it all the same: the call on the connection is made,
  the engine answers with its syntax error, and the store is as it was.
\<close>

theorem dodajanje_no_fields:
  "dodajanje t (Some []) =
     Inr (''\<newline>'' @
          ''            INSERT INTO '' @ fmt (ime t) @ '' ()\<newline>'' @
          ''            VALUES ();\<newline>'' @
          ''        '')
   \<and> dodajanje t None = Inl TypeError
   \<and> parse (''\<newline>'' @
          ''            INSERT INTO '' @ fmt (ime t) @ '' ()\<newline>'' @
          ''            VALUES ();\<newline>'' @
          ''        '') = None
   \<and> (list_all (\<lambda>(k, v). v = None) kwargs \<longrightarrow>
        dodaj_vrstico (sqlite chk) t kwargs w =
          (Inl (OperationalError ''syntax error''),
           w\<lparr>calls := calls w @
              [Execute (''\<newline>'' @
                        ''            INSERT INTO '' @ fmt (ime t) @ '' ()\<newline>'' @
                        ''            VALUES ();\<newline>'' @
                        ''        '') []]\<rparr>))"
proof -
  let ?sql = "''\<newline>'' @
          ''            INSERT INTO '' @ fmt (ime t) @ '' ()\<newline>'' @
          ''            VALUES ();\<newline>'' @
          ''        ''"
  have a: "dodajanje t (Some []) = Inr ?sql" by (simp add: dodajanje_def)
  have n: "dodajanje t None = Inl TypeError" by (simp add: dodajanje_def)
  have b: "parse ?sql = None" using parse_no_fields [of t] by (simp only: a sum.sel)
  from a n b dodaj_vrstico_no_fields [of kwargs chk t w] show ?thesis by blast
qed

theorem dodajanje_no_fields_witness:
  "list_all (\<lambda>(k, v). v = None) [(''email'', None :: string option)]
   \<and> dodaj_vrstico (sqlite accept_all) Stranka [(''email'', None)] (start sample_db) =
       (Inl (OperationalError ''syntax error''),
        (start sample_db)\<lparr>calls :=
           [Execute (''\<newline>'' @
                     ''            INSERT INTO stranka ()\<newline>'' @
                     ''            VALUES ();\<newline>'' @
                     ''        '') []]\<rparr>)"
  using dodajanje_no_fields [of Stranka "[(''email'', None)]" accept_all "start sample_db"]
  by (simp add: fmt_def start_def)

section \<open>Drop, create and clear\<close>




text \<open>
  C9. When the table exists, \<open>izprazni\<close> succeeds, whether the table has rows or not;
  afterwards the table is there with the same structure and no rows, every other table
  is as it was, and the store has the same tables in the same order.
\<close>

theorem izprazni_clears_own_table:
  assumes "map_of (db_tables (engine w)) (fmt (ime t)) = Some tb"
  shows "\<exists>w'. izprazni (sqlite chk) t w = (Inr (), w')
        \<and> map_of (db_tables (engine w')) (fmt (ime t)) = Some (tb\<lparr>t_rows := []\<rparr>)
        \<and> t_sql (tb\<lparr>t_rows := []\<rparr>) = t_sql tb
        \<and> rows_of (engine w') (fmt (ime t)) = []
        \<and> (\<forall>n. n \<noteq> fmt (ime t) \<longrightarrow>
              map_of (db_tables (engine w')) n = map_of (db_tables (engine w)) n)
        \<and> map fst (db_tables (engine w')) = map fst (db_tables (engine w))"
  using izprazni_sqlite [OF assms, of chk] update_keeps_keys [OF assms]
  by (simp add: update_conv' rows_of_def)

theorem izprazni_clears_own_table_witness:
  "map_of (db_tables (engine (start sample_db))) (fmt (ime Stranka)) =
     Some \<lparr>t_sql = the (ustvari_sql Stranka),
           t_rows = [(1, [(''first_name'', Some ''Bor''), (''last_name'', Some ''Novak'')]),
                     (2, [(''first_name'', Some ''Cene''), (''last_name'', Some ''Zupan'')])]\<rparr>
   \<and> fst (izprazni (sqlite accept_all) Stranka (start sample_db)) = Inr ()
   \<and> rows_of (engine (snd (izprazni (sqlite accept_all) Stranka (start sample_db)))) ''stranka'' = []
   \<and> rows_of (engine (snd (izprazni (sqlite accept_all) Stranka (start sample_db)))) ''oblacilo'' =
       [(1, [(''ID'', Some ''X9''), (''size'', Some ''M'')])]
   \<and> map fst (db_tables (engine (snd (izprazni (sqlite accept_all) Stranka (start sample_db))))) =
       [''stranka'', ''oblacilo'']"
proof -
  have h: "map_of (db_tables (engine (start sample_db))) (fmt (ime Stranka)) =
     Some \<lparr>t_sql = the (ustvari_sql Stranka),
           t_rows = [(1, [(''first_name'', Some ''Bor''), (''last_name'', Some ''Novak'')]),
                     (2, [(''first_name'', Some ''Cene''), (''last_name'', Some ''Zupan'')])]\<rparr>"
    by (simp add: start_def sample_db_def fmt_def del: ustvari_sql.simps)
  from izprazni_clears_own_table [OF h, of accept_all] obtain w' where
    s: "izprazni (sqlite accept_all) Stranka (start sample_db) = (Inr (), w')"
    and r: "rows_of (engine w') (fmt (ime Stranka)) = []"
    and o: "\<forall>n. n \<noteq> fmt (ime Stranka) \<longrightarrow>
              map_of (db_tables (engine w')) n = map_of (db_tables (engine (start sample_db))) n"
    and k: "map fst (db_tables (engine w')) = map fst (db_tables (engine (start sample_db)))"
    by blast
  have n: "fmt (ime Stranka) = ''stranka''" by (simp add: fmt_def)
  from o have "map_of (db_tables (engine w')) ''oblacilo'' =
      map_of (db_tables (engine (start sample_db))) ''oblacilo''" by (simp add: fmt_def)
  then have o': "rows_of (engine w') ''oblacilo'' = [(1, [(''ID'', Some ''X9''), (''size'', Some ''M'')])]"
    by (simp add: rows_of_def start_def sample_db_def)
  from k have k': "map fst (db_tables (engine w')) = [''stranka'', ''oblacilo'']"
    by (simp add: start_def sample_db_def)
  from r have r': "rows_of (engine w') ''stranka'' = []" by (simp only: n)
  show ?thesis using h r' o' k' by (simp add: s del: ustvari_sql.simps)
qed

text \<open>
  C6, as stated, fails: on a store with no table at all, so with no clothing table,
  \<open>Zaloga.ustvari\<close> succeeds and the inventory table is there.
\<close>

theorem ustvari_zaloga_without_oblacilo:
  "\<not> has_table empty_db ''oblacilo''
   \<and> fst (ustvari (sqlite accept_all) Zaloga (start empty_db)) = Inr ()
   \<and> has_table (engine (snd (ustvari (sqlite accept_all) Zaloga (start empty_db)))) ''zaloga''"
  by code_simp

text \<open>
  C6 (amended). \<open>Zaloga.ustvari\<close> fails exactly when a table named \<open>zaloga\<close> is
  already there, and otherwise adds the table, whatever other tables the store has. The
  statement it sends names \<open>oblacila\<close> as the referenced table, and no class of the
  module has that table name.
\<close>

theorem ustvari_zaloga_ignores_reference:
  "ustvari (sqlite chk) Zaloga w =
     (if has_table (engine w) ''zaloga''
      then (Inl (OperationalError ''table zaloga already exists''),
            w\<lparr>calls := calls w @ [Execute (the (ustvari_sql Zaloga)) []]\<rparr>)
      else (Inr (),
            w\<lparr>engine := (engine w)\<lparr>db_tables := db_tables (engine w) @
                 [(''zaloga'', \<lparr>t_sql = the (ustvari_sql Zaloga), t_rows = []\<rparr>)]\<rparr>,
              calls := calls w @ [Execute (the (ustvari_sql Zaloga)) []]\<rparr>))
   \<and> (\<exists>pre post. the (ustvari_sql Zaloga) = pre @ ''REFERENCES oblacila(ID)'' @ post)
   \<and> ime t \<noteq> Some ''oblacila''"
proof -
  have nz: "Zaloga \<noteq> Tabela" by simp
  have one: "ustvari (sqlite chk) Zaloga w =
     (if has_table (engine w) ''zaloga''
      then (Inl (OperationalError ''table zaloga already exists''),
            w\<lparr>calls := calls w @ [Execute (the (ustvari_sql Zaloga)) []]\<rparr>)
      else (Inr (),
            w\<lparr>engine := (engine w)\<lparr>db_tables := db_tables (engine w) @
                 [(''zaloga'', \<lparr>t_sql = the (ustvari_sql Zaloga), t_rows = []\<rparr>)]\<rparr>,
              calls := calls w @ [Execute (the (ustvari_sql Zaloga)) []]\<rparr>))"
  proof (cases "map_of (db_tables (engine w)) ''zaloga''")
    case None
    with ustvari_sqlite_new [OF nz, of w chk] show ?thesis
      by (simp add: has_table_def fmt_def del: ustvari_sql.simps)
  next
    case (Some tb)
    with ustvari_sqlite_exists [OF nz, of w tb chk] show ?thesis
      by (simp add: has_table_def fmt_def del: ustvari_sql.simps)
  qed
  have two: "\<exists>pre post. the (ustvari_sql Zaloga) = pre @ ''REFERENCES oblacila(ID)'' @ post"
    by (rule exI [of _ "''\<newline>'' @
   ''            CREATE TABLE zaloga (\<newline>'' @
   ''                id_dobave            TEXT PRIMARY KEY,\<newline>'' @
   ''                id_izdelka           TEXT ''"],
        rule exI [of _ "'',\<newline>'' @
   ''                price                REAL NOT NULL,\<newline>'' @
   ''                quantity             INTEGER NOT NULL,\<newline>'' @
   ''                date_of_launch       DATE\<newline>'' @
   ''            );\<newline>'' @
   ''        ''"]) simp
  have three: "ime t \<noteq> Some ''oblacila''" by (cases t) simp_all
  from one two three show ?thesis by blast
qed

theorem ustvari_zaloga_ignores_reference_witness:
  "has_table sample_db ''oblacilo'' \<and> \<not> has_table sample_db ''zaloga''
   \<and> fst (ustvari (sqlite accept_all) Zaloga (start sample_db)) = Inr ()
   \<and> has_table (engine (snd (ustvari (sqlite accept_all) Zaloga (start sample_db)))) ''zaloga''
   \<and> fst (ustvari (sqlite accept_all) Zaloga
            (snd (ustvari (sqlite accept_all) Zaloga (start sample_db)))) =
       Inl (OperationalError ''table zaloga already exists'')"
proof -
  have a: "has_table sample_db ''oblacilo''" and b: "\<not> has_table sample_db ''zaloga''"
    by (simp_all add: has_table_def sample_db_def)
  from b have b': "\<not> has_table (engine (start sample_db)) ''zaloga''" by (simp add: start_def)
  have one: "ustvari (sqlite accept_all) Zaloga (start sample_db) =
      (Inr (), (start sample_db)\<lparr>engine := (engine (start sample_db))\<lparr>db_tables :=
                 db_tables (engine (start sample_db)) @
                 [(''zaloga'', \<lparr>t_sql = the (ustvari_sql Zaloga), t_rows = []\<rparr>)]\<rparr>,
              calls := calls (start sample_db) @ [Execute (the (ustvari_sql Zaloga)) []]\<rparr>)"
    using ustvari_zaloga_ignores_reference [of accept_all "start sample_db" Zaloga] b'
    by (simp del: ustvari_sql.simps)
  have c: "has_table (engine (snd (ustvari (sqlite accept_all) Zaloga (start sample_db)))) ''zaloga''"
    by (simp add: one has_table_def del: ustvari_sql.simps)
  have two: "fst (ustvari (sqlite accept_all) Zaloga
            (snd (ustvari (sqlite accept_all) Zaloga (start sample_db)))) =
       Inl (OperationalError ''table zaloga already exists'')"
    using ustvari_zaloga_ignores_reference
      [of accept_all "snd (ustvari (sqlite accept_all) Zaloga (start sample_db))" Zaloga] c
    by (simp del: ustvari_sql.simps)
  show ?thesis using a b c two by (simp add: one del: ustvari_sql.simps)
qed

section \<open>Importing\<close>











section \<open>The start-up check\<close>

subsection \<open>The result of the count is not used\<close>

text \<open>
  \<open>ustvari_bazo_ce_ne_obstaja\<close> binds the cursor of the count to \<open>cur\<close> and never looks
  at it: whatever the cursors of a connection hold, the run is the same.
\<close>

lemma conn_execute_with_cursors:
  "conn_execute (with_cursors f conn) sql ps w =
     (case conn_execute conn sql ps w of (r, w') \<Rightarrow> (map_sum id f r, w'))"
  by (simp add: conn_execute_def with_cursors_def split: prod.splits)

lemma izbrisi_with_cursors: "izbrisi (with_cursors f conn) = izbrisi conn"
  by (rule ext, rule ext)
    (simp add: izbrisi_def conn_execute_with_cursors split: prod.splits sum.splits)

lemma ustvari_with_cursors: "ustvari (with_cursors f conn) = ustvari conn"
  by (rule ext, rule ext)
    (simp add: ustvari_def conn_execute_with_cursors split: prod.splits sum.splits option.splits)

lemma uvozi_vrstica_with_cursors:
  "uvozi_vrstica (with_cursors f conn) = uvozi_vrstica conn"
  by (rule ext, rule ext, rule ext, rule ext)
    (simp add: uvozi_vrstica_def dodaj_vrstico_def conn_execute_with_cursors Let_def
      split: prod.splits sum.splits)

lemma uvozi_with_cursors: "uvozi (with_cursors f conn) = uvozi conn"
  by (rule ext, rule ext, rule ext, rule ext)
    (simp add: uvozi_def uvozi_vrstica_with_cursors split: option.splits sum.splits list.splits)

lemma ustvari_bazo_with_cursors: "ustvari_bazo (with_cursors f conn) = ustvari_bazo conn"
  by (rule ext, rule ext)
    (simp add: ustvari_bazo_def izbrisi_tabele_def ustvari_tabele_def uvozi_podatke_def
      izbrisi_with_cursors ustvari_with_cursors uvozi_with_cursors
      split: prod.splits sum.splits)

lemma with_conn_with_cursors: "with_conn (with_cursors f conn) = with_conn conn"
  by (rule ext, rule ext) (simp add: with_conn_def with_cursors_def split: prod.splits sum.splits)

lemma ensure_with_cursors:
  "ustvari_bazo_ce_ne_obstaja (with_cursors f conn) fs w = ustvari_bazo_ce_ne_obstaja conn fs w"
  by (simp add: ustvari_bazo_ce_ne_obstaja_def with_conn_with_cursors ustvari_bazo_with_cursors
      conn_execute_with_cursors with_conn_def split: prod.splits sum.splits)

subsection \<open>With no cursor unread the two connections agree\<close>

text \<open>
  As long as no cursor is unread, the connection that keeps its cursors answers every
  statement as \<open>sqlite\<close> does and leaves the same store; and the statements of
  \<open>ustvari\<close>, \<open>izbrisi\<close>, \<open>izprazni\<close> and \<open>dodaj_vrstico\<close> leave no cursor.
\<close>

lemma sqlite3_execute_no_cursor:
  assumes "s_unread s = 0"
  shows "fst (sqlite3_execute chk sql ps s) = fst (sqlite_execute chk sql ps (s_db s))"
    and "s_db (snd (sqlite3_execute chk sql ps s)) = snd (sqlite_execute chk sql ps (s_db s))"
  using assms
  by (simp_all add: sqlite3_execute_def sqlite_execute_def blocked_def
      split: option.splits statement.splits prod.splits sum.splits)

lemma sqlite3_execute_no_rows:
  assumes "parse sql = Some st" and "st \<noteq> SelectCountMaster" and "\<forall>n. st \<noteq> SelectAll n"
    and "\<not> blocked st s"
  shows "s_unread (snd (sqlite3_execute chk sql ps s)) = s_unread s"
  using assms
  by (simp add: sqlite3_execute_def leaves_cursor_def
      split: option.splits statement.splits prod.splits sum.splits)

subsection \<open>The cursor of the count is left unread\<close>

text \<open>
  On a connection that keeps its cursors the count leaves one unread. While it is
  there, dropping a table that exists is refused, and dropping one that does not exist
  changes nothing.
\<close>

lemma sqlite3_fields:
  "execute (sqlite3 chk) = sqlite3_execute chk"
  "commit (sqlite3 chk) s = s\<lparr>s_db := sqlite_commit (s_db s)\<rparr>"
  "rollback (sqlite3 chk) s = s\<lparr>s_db := sqlite_rollback (s_db s)\<rparr>"
  by (simp_all add: sqlite3_def)

lemma conn_execute_count_kept:
  "conn_execute (sqlite3 chk) ''SELECT COUNT(*) FROM sqlite_master'' [] w =
     (Inr no_rows,
      w\<lparr>engine := (engine w)\<lparr>s_unread := Suc (s_unread (engine w))\<rparr>,
        calls := calls w @ [Execute ''SELECT COUNT(*) FROM sqlite_master'' []]\<rparr>)"
  by (simp add: conn_execute_def sqlite3_def sqlite3_execute_def parse_count blocked_def
      run_def leaves_cursor_def)

lemma izbrisi_kept_locked:
  assumes "0 < s_unread (engine w)" and "has_table (s_db (engine w)) (fmt (ime t))"
  shows "izbrisi (sqlite3 chk) t w =
     (Inl (OperationalError ''database table is locked''),
      w\<lparr>calls := calls w @ [Execute (''DROP TABLE IF EXISTS '' @ fmt (ime t) @ '';'') []]\<rparr>)"
  unfolding izbrisi_def conn_execute_def
  using assms
  by (simp add: sqlite3_def sqlite3_execute_def parse_drop blocked_def del: append.simps)

lemma delete_absent:
  "\<not> has_table d n \<Longrightarrow> d\<lparr>db_tables := AList.delete n (db_tables d)\<rparr> = d"
proof -
  assume "\<not> has_table d n"
  then have "n \<notin> fst ` set (db_tables d)"
    by (simp add: has_table_def map_of_eq_None_iff)
  then show ?thesis by simp
qed

lemma izbrisi_kept_absent:
  assumes "\<not> has_table (s_db (engine w)) (fmt (ime t))"
  shows "izbrisi (sqlite3 chk) t w =
     (Inr (), w\<lparr>calls := calls w @ [Execute (''DROP TABLE IF EXISTS '' @ fmt (ime t) @ '';'') []]\<rparr>)"
  unfolding izbrisi_def conn_execute_def
  using assms
  by (simp add: sqlite3_def sqlite3_execute_def parse_drop blocked_def run_def leaves_cursor_def
      delete_absent del: append.simps)

lemma drops_locked:
  assumes "0 < s_unread (engine w)"
    and "\<exists>t \<in> set ts. has_table (s_db (engine w)) (fmt (ime t))"
  shows "\<exists>k. 0 < k \<and> k \<le> length ts \<and>
      for_each (izbrisi (sqlite3 chk)) ts w =
        (Inl (OperationalError ''database table is locked''),
         w\<lparr>calls := calls w @
            map (\<lambda>t. Execute (''DROP TABLE IF EXISTS '' @ fmt (ime t) @ '';'') []) (take k ts)\<rparr>)"
  using assms
proof (induction ts arbitrary: w)
  case Nil
  then show ?case by simp
next
  case (Cons t ts)
  show ?case
  proof (cases "has_table (s_db (engine w)) (fmt (ime t))")
    case True
    from izbrisi_kept_locked [OF Cons.prems(1) True, of chk]
    have "for_each (izbrisi (sqlite3 chk)) (t # ts) w =
        (Inl (OperationalError ''database table is locked''),
         w\<lparr>calls := calls w @
            map (\<lambda>t. Execute (''DROP TABLE IF EXISTS '' @ fmt (ime t) @ '';'') []) (take 1 (t # ts))\<rparr>)"
      by (simp del: append.simps)
    then show ?thesis by (intro exI [of _ 1]) simp
  next
    case False
    let ?w1 = "w\<lparr>calls := calls w @ [Execute (''DROP TABLE IF EXISTS '' @ fmt (ime t) @ '';'') []]\<rparr>"
    have step: "izbrisi (sqlite3 chk) t w = (Inr (), ?w1)" by (rule izbrisi_kept_absent [OF False])
    from Cons.prems False have a: "0 < s_unread (engine ?w1)"
      and b: "\<exists>t \<in> set ts. has_table (s_db (engine ?w1)) (fmt (ime t))" by auto
    from Cons.IH [OF a b] obtain k where k: "0 < k" "k \<le> length ts"
      "for_each (izbrisi (sqlite3 chk)) ts ?w1 =
        (Inl (OperationalError ''database table is locked''),
         ?w1\<lparr>calls := calls ?w1 @
            map (\<lambda>t. Execute (''DROP TABLE IF EXISTS '' @ fmt (ime t) @ '';'') []) (take k ts)\<rparr>)"
      by blast
    have "for_each (izbrisi (sqlite3 chk)) (t # ts) w =
        (Inl (OperationalError ''database table is locked''),
         w\<lparr>calls := calls w @
            map (\<lambda>t. Execute (''DROP TABLE IF EXISTS '' @ fmt (ime t) @ '';'') [])
              (take (Suc k) (t # ts))\<rparr>)"
      by (simp add: step k(3) del: append.simps)
    with k(1,2) show ?thesis by (intro exI [of _ "Suc k"]) simp
  qed
qed

text \<open>
  Creating a table and inserting a row are not refused, so on a store that holds none
  of the five tables the rebuild goes through: the first start of the program on the
  sample files ends normally after the count, five drops, five creates, two inserts and
  the commit.
\<close>

lemma ustvari_kept_new:
  assumes "t \<noteq> Tabela" and "\<not> has_table (s_db (engine w)) (fmt (ime t))"
  shows "ustvari (sqlite3 chk) t w =
     (Inr (),
      w\<lparr>engine := (engine w)\<lparr>s_db := (s_db (engine w))\<lparr>db_tables :=
                    db_tables (s_db (engine w)) @
                    [(fmt (ime t), \<lparr>t_sql = the (ustvari_sql t), t_rows = []\<rparr>)]\<rparr>\<rparr>,
        calls := calls w @ [Execute (the (ustvari_sql t)) []]\<rparr>)"
proof -
  from assms(1) obtain sql where s: "ustvari_sql t = Some sql"
    and p: "parse sql = Some (CreateTable (fmt (ime t)))" by (rule ustvari_sql_parse)
  from assms(2) have n: "map_of (db_tables (s_db (engine w))) (fmt (ime t)) = None"
    by (simp add: has_table_def)
  show ?thesis
    unfolding ustvari_def conn_execute_def
    by (simp add: s p n sqlite3_def sqlite3_execute_def blocked_def leaves_cursor_def run_def)
qed

lemma dodaj_vrstico_kept:
  fixes kwargs :: bindings
  defines "present \<equiv> filter (\<lambda>(kljuc, vrednost). vrednost \<noteq> None) kwargs"
  assumes tb: "map_of (db_tables (s_db (engine w))) (fmt (ime t)) = Some tb"
    and ne: "present \<noteq> []"
    and names: "list_all is_name (map fst present)"
    and dist: "distinct (map fst present)"
    and sql: "dodajanje t (Some (map fst present)) = Inr sql"
  shows "dodaj_vrstico (sqlite3 chk) t kwargs w =
     (case chk (fmt (ime t)) tb present of
        Inl e \<Rightarrow>
          (Inl e, w\<lparr>engine := (engine w)\<lparr>s_db := begin_implicit (s_db (engine w))\<rparr>,
                    calls := calls w @ [Execute sql present]\<rparr>)
      | Inr rid \<Rightarrow>
          (Inr (Some rid),
           w\<lparr>engine := (engine w)\<lparr>s_db := (begin_implicit (s_db (engine w)))\<lparr>db_tables :=
                 AList.update (fmt (ime t)) (tb\<lparr>t_rows := t_rows tb @ [(rid, present)]\<rparr>)
                   (db_tables (s_db (engine w)))\<rparr>\<rparr>,
             calls := calls w @ [Execute sql present]\<rparr>))"
proof -
  have ne': "map fst present \<noteq> []" using ne by simp
  have p: "parse sql = Some (InsertInto (fmt (ime t)) (map fst present)
      (map PARAM_FMT_format (map fst present)))"
    by (rule parse_dodajanje_names [OF ne' names sql])
  have same: "db_tables (begin_implicit (s_db (engine w))) = db_tables (s_db (engine w))"
    by (simp add: begin_implicit_def split: option.splits)
  have z: "zip (map fst present) (map snd present) = present" by (simp add: zip_map_fst_snd)
  have bv: "bind_values present (map (PARAM_FMT_format \<circ> fst) present) = Some (map snd present)"
    using bind_values_present [OF dist] by simp
  have run: "sqlite3_execute chk sql present (engine w) =
     (case chk (fmt (ime t)) tb present of
        Inl e \<Rightarrow> (Inl e, (engine w)\<lparr>s_db := begin_implicit (s_db (engine w))\<rparr>)
      | Inr rid \<Rightarrow>
          (Inr \<lparr>lastrowid = Some rid\<rparr>,
           (engine w)\<lparr>s_db := (begin_implicit (s_db (engine w)))\<lparr>db_tables :=
                 AList.update (fmt (ime t)) (tb\<lparr>t_rows := t_rows tb @ [(rid, present)]\<rparr>)
                   (db_tables (s_db (engine w)))\<rparr>\<rparr>))"
    by (simp add: sqlite3_execute_def blocked_def leaves_cursor_def p run_def tb Let_def bv z same
        split: sum.splits)
  show ?thesis
    unfolding dodaj_vrstico_def Let_def present_def [symmetric] sql sum.case conn_execute_def
    by (simp add: sqlite3_def run split: sum.splits)
qed

lemma dodaj_vrstico_kept_text:
  assumes "has_table (s_db (engine w)) (fmt (ime t))"
    and "filter (\<lambda>(kljuc, vrednost). vrednost \<noteq> None) kwargs \<noteq> []"
    and "list_all is_name (map fst (filter (\<lambda>(kljuc, vrednost). vrednost \<noteq> None) kwargs))"
    and "distinct (map fst (filter (\<lambda>(kljuc, vrednost). vrednost \<noteq> None) kwargs))"
  shows "dodaj_vrstico (sqlite3 chk) t kwargs w =
     (let present = filter (\<lambda>(kljuc, vrednost). vrednost \<noteq> None) kwargs;
          tb = the (map_of (db_tables (s_db (engine w))) (fmt (ime t)));
          sql = ''\<newline>'' @
          ''            INSERT INTO '' @ fmt (ime t) @ '' ('' @ join '', '' (map fst present) @ '')\<newline>'' @
          ''            VALUES ('' @ join '', '' (map PARAM_FMT_format (map fst present)) @ '');\<newline>'' @
          ''        ''
      in case chk (fmt (ime t)) tb present of
        Inl e \<Rightarrow>
          (Inl e, w\<lparr>engine := (engine w)\<lparr>s_db := begin_implicit (s_db (engine w))\<rparr>,
                    calls := calls w @ [Execute sql present]\<rparr>)
      | Inr rid \<Rightarrow>
          (Inr (Some rid),
           w\<lparr>engine := (engine w)\<lparr>s_db := (begin_implicit (s_db (engine w)))\<lparr>db_tables :=
                 AList.update (fmt (ime t)) (tb\<lparr>t_rows := t_rows tb @ [(rid, present)]\<rparr>)
                   (db_tables (s_db (engine w)))\<rparr>\<rparr>,
             calls := calls w @ [Execute sql present]\<rparr>))"
proof -
  from assms(1) have tb: "map_of (db_tables (s_db (engine w))) (fmt (ime t)) =
      Some (the (map_of (db_tables (s_db (engine w))) (fmt (ime t))))"
    by (auto simp: has_table_def)
  show ?thesis
    unfolding Let_def
    by (rule dodaj_vrstico_kept [OF tb assms(2-4)]) (simp add: dodajanje_def)
qed

lemma first_start_rebuilds:
  "(let r = ustvari_bazo_ce_ne_obstaja (sqlite3 accept_all) sample_files (start (connect empty_db))
    in fst r = Inr ()
     \<and> length (calls (snd r)) = 14
     \<and> last (calls (snd r)) = Commit
     \<and> map fst (db_tables (s_db (engine (snd r)))) =
         [''stranka'', ''oblacilo'', ''zaloga'', ''kosarica'', ''narocilo'']
     \<and> rows_of (s_db (engine (snd r))) ''stranka'' =
         [(1, [(''first_name'', Some ''Ana''), (''last_name'', Some ''Kos''),
               (''email'', Some ''ana@x.io''), (''gender'', Some ''F''),
               (''ip_address'', Some ''1.2.3.4'')])]
     \<and> printed (snd r) =
         [''uvozi v tabelo stranka'', ''uvozi v tabelo oblacilo'', ''uvozi v tabelo zaloga'',
          ''uvozi v tabelo kosarica'', ''uvozi v tabelo narocilo''])"
  unfolding Let_def
  by (simp add: ustvari_bazo_ce_ne_obstaja_def with_conn_def conn_execute_count_kept
      ustvari_bazo_def pripravi_tabele_def izbrisi_tabele_def ustvari_tabele_def
      uvozi_podatke_def izbrisi_kept_absent ustvari_kept_new uvozi_def uvozi_vrstica_def
      dodaj_vrstico_kept_text sqlite3_fields connect_def empty_db_def sample_eval
      del: ustvari_sql.simps)

text \<open>
  C5. \<open>ustvari_bazo_ce_ne_obstaja\<close> does not branch on the result of the count, and it
  does call \<open>ustvari_bazo\<close> on every invocation. But the rebuild starts by dropping the
  five tables while the cursor of the count is still unread. So whenever the store
  already holds one of the five tables, that is on every start of the program but the
  first, the run ends at a \<open>DROP TABLE\<close> with \<open>OperationalError\<close>
  \<open>database table is locked\<close>: the calls are the count, the drops up to the first
  table that exists, and the rollback of the \<open>with\<close> block. No table is dropped, none
  is created, no row is inserted, nothing is printed, and the store is left as it was.
  The code does not rebuild from scratch on every invocation.
\<close>

theorem ustvari_bazo_ce_ne_obstaja_locked:
  assumes "t \<in> set pripravi_tabele" and "has_table (s_db (engine w)) (fmt (ime t))"
  shows "\<exists>k. 0 < k \<and> k \<le> length pripravi_tabele \<and>
      ustvari_bazo_ce_ne_obstaja (sqlite3 chk) fs w =
        (Inl (OperationalError ''database table is locked''),
         w\<lparr>engine := \<lparr>s_db = sqlite_rollback (s_db (engine w)),
                       s_unread = Suc (s_unread (engine w))\<rparr>,
           calls := calls w @
             Execute ''SELECT COUNT(*) FROM sqlite_master'' [] #
             map (\<lambda>t. Execute (''DROP TABLE IF EXISTS '' @ fmt (ime t) @ '';'') [])
               (take k pripravi_tabele) @
             [Rollback]\<rparr>)"
proof -
  let ?w0 = "w\<lparr>engine := (engine w)\<lparr>s_unread := Suc (s_unread (engine w))\<rparr>,
        calls := calls w @ [Execute ''SELECT COUNT(*) FROM sqlite_master'' []]\<rparr>"
  have q: "conn_execute (sqlite3 chk) ''SELECT COUNT(*) FROM sqlite_master'' [] w = (Inr no_rows, ?w0)"
    by (rule conn_execute_count_kept)
  have a: "0 < s_unread (engine ?w0)" by simp
  from assms have b: "\<exists>t \<in> set pripravi_tabele. has_table (s_db (engine ?w0)) (fmt (ime t))"
    by auto
  from drops_locked [OF a b, of chk] obtain k where k: "0 < k" "k \<le> length pripravi_tabele"
    "for_each (izbrisi (sqlite3 chk)) pripravi_tabele ?w0 =
        (Inl (OperationalError ''database table is locked''),
         ?w0\<lparr>calls := calls ?w0 @
            map (\<lambda>t. Execute (''DROP TABLE IF EXISTS '' @ fmt (ime t) @ '';'') [])
              (take k pripravi_tabele)\<rparr>)"
    by blast
  have "ustvari_bazo_ce_ne_obstaja (sqlite3 chk) fs w =
        (Inl (OperationalError ''database table is locked''),
         w\<lparr>engine := \<lparr>s_db = sqlite_rollback (s_db (engine w)),
                       s_unread = Suc (s_unread (engine w))\<rparr>,
           calls := calls w @
             Execute ''SELECT COUNT(*) FROM sqlite_master'' [] #
             map (\<lambda>t. Execute (''DROP TABLE IF EXISTS '' @ fmt (ime t) @ '';'') [])
               (take k pripravi_tabele) @
             [Rollback]\<rparr>)"
    unfolding ustvari_bazo_ce_ne_obstaja_def with_conn_def q prod.case sum.case
      ustvari_bazo_def Let_def izbrisi_tabele_def k(3)
    by (simp add: sqlite3_def)
  with k(1,2) show ?thesis by blast
qed

theorem ustvari_bazo_ce_ne_obstaja_locked_witness:
  "Stranka \<in> set pripravi_tabele
   \<and> has_table (s_db (engine (start (connect sample_db)))) (fmt (ime Stranka))
   \<and> ustvari_bazo_ce_ne_obstaja (sqlite3 accept_all) sample_files (start (connect sample_db)) =
       (Inl (OperationalError ''database table is locked''),
        \<lparr>engine = \<lparr>s_db = sample_db, s_unread = 1\<rparr>,
         calls = [Execute ''SELECT COUNT(*) FROM sqlite_master'' [],
                  Execute ''DROP TABLE IF EXISTS stranka;'' [],
                  Rollback],
         printed = []\<rparr>)
   \<and> length (rows_of sample_db ''stranka'') = 2"
proof -
  have a: "Stranka \<in> set pripravi_tabele" by (simp add: pripravi_tabele_def)
  have b: "has_table (s_db (engine (start (connect sample_db)))) (fmt (ime Stranka))"
    by (simp add: start_def connect_def has_table_def sample_db_def fmt_def)
  have c: "length (rows_of sample_db ''stranka'') = 2" by (simp add: rows_of_def sample_db_def)
  have lock: "izbrisi (sqlite3 accept_all) Stranka
      ((start (connect sample_db))\<lparr>engine := (engine (start (connect sample_db)))
          \<lparr>s_unread := Suc (s_unread (engine (start (connect sample_db))))\<rparr>,
        calls := calls (start (connect sample_db)) @ [Execute ''SELECT COUNT(*) FROM sqlite_master'' []]\<rparr>) =
     (Inl (OperationalError ''database table is locked''),
      (start (connect sample_db))\<lparr>engine := (engine (start (connect sample_db)))
          \<lparr>s_unread := Suc (s_unread (engine (start (connect sample_db))))\<rparr>,
        calls := calls (start (connect sample_db)) @ [Execute ''SELECT COUNT(*) FROM sqlite_master'' []]
          @ [Execute (''DROP TABLE IF EXISTS '' @ fmt (ime Stranka) @ '';'') []]\<rparr>)"
    using izbrisi_kept_locked [of "(start (connect sample_db))\<lparr>engine := (engine (start (connect sample_db)))
          \<lparr>s_unread := Suc (s_unread (engine (start (connect sample_db))))\<rparr>,
        calls := calls (start (connect sample_db)) @ [Execute ''SELECT COUNT(*) FROM sqlite_master'' []]\<rparr>"
        Stranka accept_all] b
    by (simp del: append.simps)
  have run: "ustvari_bazo_ce_ne_obstaja (sqlite3 accept_all) sample_files (start (connect sample_db)) =
       (Inl (OperationalError ''database table is locked''),
        \<lparr>engine = \<lparr>s_db = sample_db, s_unread = 1\<rparr>,
         calls = [Execute ''SELECT COUNT(*) FROM sqlite_master'' [],
                  Execute ''DROP TABLE IF EXISTS stranka;'' [],
                  Rollback],
         printed = []\<rparr>)"
    unfolding ustvari_bazo_ce_ne_obstaja_def with_conn_def conn_execute_count_kept prod.case sum.case
      ustvari_bazo_def Let_def izbrisi_tabele_def pripravi_tabele_def for_each.simps lock
    by (simp add: sqlite3_def start_def connect_def fmt_def sqlite_rollback_def sample_db_def)
  from a b run c have ev: ?thesis by simp
  show ?thesis
    using ustvari_bazo_ce_ne_obstaja_locked [OF a b, of accept_all sample_files]
    by - (rule ev)
qed

end
